theory Spec2Isabelle
  imports Complex_Main
begin

section \<open>Rolling-window keypoint aggregation and threshold alert of \<^verbatim>\<open>src/index.js\<close>\<close>

text \<open>
  The development embeds the three functions of \<^verbatim>\<open>src/index.js\<close> that carry the
  analytics: \<^verbatim>\<open>updateKeypointsData\<close>, \<^verbatim>\<open>updateGraph\<close> and
  \<^verbatim>\<open>drawGraph\<close>, together with the two UI listeners of
  \<^verbatim>\<open>setupThresholdControls\<close> that write the alert settings.

  Conventions of the embedding.
  \<^item> A JavaScript number is an IEEE 754 double. A finite double is a real number, so
    values have type \<open>real\<close>; an arithmetic operation of the source (\<^verbatim>\<open>-\<close>,
    \<^verbatim>\<open>+\<close>, \<^verbatim>\<open>/\<close>) delivers the exact result passed through the rounding
    function \<open>rnd\<close>, which every function of the model takes as its first argument.
    Comparisons are exact. \<open>binary64\<close> below is the rounding of doubles (to nearest,
    ties to even, with subnormals); \<open>\<lambda>x. x\<close> is arithmetic that never rounds.
    Infinities and NaN are not values of the model.
  \<^item> \<^verbatim>\<open>performance.now()\<close> is an input: every function that reads the clock takes
    the value it reads as an argument. \<^verbatim>\<open>updateKeypointsData\<close> reads the
    clock once itself and once more inside its call of \<^verbatim>\<open>updateGraph\<close>, so it
    takes two clock values.
  \<^item> The module-level variables form the record \<open>state\<close>. The sound output of
    \<^verbatim>\<open>beep\<close> is a log of its calls in the field \<open>audio\<close>; each log entry
    also notes the \<^verbatim>\<open>currentTime\<close> of the tick that made the call.
  \<^item> Field names carry a prefix where two objects of the source share a name
    (\<^verbatim>\<open>y\<close> of a keypoint and of a history entry).
\<close>

subsection \<open>Floating-point arithmetic\<close>

text \<open>The three operations the source uses, each the exact result rounded.\<close>

definition fsub :: "(real \<Rightarrow> real) \<Rightarrow> real \<Rightarrow> real \<Rightarrow> real" where
  "fsub rnd a b = rnd (a - b)"

definition fadd :: "(real \<Rightarrow> real) \<Rightarrow> real \<Rightarrow> real \<Rightarrow> real" where
  "fadd rnd a b = rnd (a + b)"

definition fdiv :: "(real \<Rightarrow> real) \<Rightarrow> real \<Rightarrow> real \<Rightarrow> real" where
  "fdiv rnd a b = rnd (a / b)"

text \<open>
  What the statements below need of a rounding function, where they need anything: it is
  monotone, and it leaves the integers up to \<open>2 ^ 53\<close> as they are. The rounding of
  doubles has both properties (\<open>rounding_binary64\<close> below), and so has arithmetic that never
  rounds (\<open>rounding_exact\<close>): a statement with the hypothesis \<open>rounding rnd\<close> holds for
  both, and one without it for every function \<open>rnd\<close>.
\<close>

definition rounding :: "(real \<Rightarrow> real) \<Rightarrow> bool" where
  "rounding rnd \<longleftrightarrow>
     (\<forall>x y. x \<le> y \<longrightarrow> rnd x \<le> rnd y) \<and>
     (\<forall>n::int. \<bar>n\<bar> \<le> 2 ^ 53 \<longrightarrow> rnd (real_of_int n) = real_of_int n)"

text \<open>
  The rounding of doubles. \<open>round_even\<close> rounds to the nearest integer, a tie to the even
  one. \<open>ulp_exponent x\<close> is the exponent of the unit in the last place near \<open>x\<close>: 52 below
  the exponent of \<open>x\<close>, and never below that of the subnormal numbers. \<open>binary64 x\<close>
  rounds \<open>x\<close> to a multiple of that unit. (A result of magnitude \<open>2 ^ 1024\<close> or more, which
  a double turns into an infinity, stays finite here.)
\<close>

definition round_even :: "real \<Rightarrow> int" where
  "round_even x =
     (let f = \<lfloor>x\<rfloor>; r = x - real_of_int f
      in if r < 1 / 2 then f else if 1 / 2 < r then f + 1 else if even f then f else f + 1)"

definition ulp_exponent :: "real \<Rightarrow> int" where
  "ulp_exponent x = max \<lfloor>log 2 \<bar>x\<bar>\<rfloor> (- 1022) - 52"

definition binary64 :: "real \<Rightarrow> real" where
  "binary64 x =
     (if x = 0 then 0
      else sgn x * (real_of_int (round_even (\<bar>x\<bar> / 2 powi ulp_exponent x))
                    * 2 powi ulp_exponent x))"

subsection \<open>Data\<close>

text \<open>A keypoint of the pose detector: \<^verbatim>\<open>{x, y, score}\<close>.\<close>

record keypoint =
  kp_x :: real
  kp_y :: real
  kp_score :: real

text \<open>
  A detected pose. An element of the \<^verbatim>\<open>keypoints\<close> array may be missing
  (\<^verbatim>\<open>undefined\<close> or \<^verbatim>\<open>null\<close>, both falsy): \<open>None\<close>.
\<close>

record pose =
  keypoints :: "keypoint option list"

text \<open>A history entry \<^verbatim>\<open>{time, y}\<close> as pushed by \<^verbatim>\<open>updateKeypointsData\<close>.\<close>

record entry =
  entry_time :: real
  entry_y :: real

text \<open>One call \<^verbatim>\<open>beep(vol, freq, duration)\<close>, with the clock value of the calling tick.\<close>

record beep_call =
  beep_at :: real
  beep_vol :: real
  beep_freq :: real
  beep_duration :: real

text \<open>
  The module state. \<^verbatim>\<open>keypointsData\<close> is the object \<^verbatim>\<open>{0: [], 1: [], 2: [], 3: [], 4: []}\<close>;
  the code never adds or removes a key and only indexes it with 0..4, so it is a
  function from the index to the history. \<open>chartData\<close> is
  \<^verbatim>\<open>chart.data.datasets[0].data\<close>.
\<close>

record state =
  threshold :: real
  alertEnabled :: bool
  lastBeepTime :: real
  keypointsData :: "nat \<Rightarrow> entry list"
  chartData :: "real list"
  audio :: "beep_call list"

definition DATA_RETENTION_WINDOW :: real where
  "DATA_RETENTION_WINDOW = 5000"

text \<open>The tracked indices, the array literal \<^verbatim>\<open>[0, 1, 2, 3, 4]\<close>.\<close>

definition tracked :: "nat list" where
  "tracked = [0, 1, 2, 3, 4]"

text \<open>The values of the module-level declarations and of \<^verbatim>\<open>setupChart\<close>.\<close>

definition initial_state :: state where
  "initial_state =
     \<lparr>threshold = 300, alertEnabled = False, lastBeepTime = 0,
      keypointsData = (\<lambda>_. []), chartData = [], audio = []\<rparr>"

subsection \<open>\<^verbatim>\<open>beep\<close> and \<^verbatim>\<open>drawGraph\<close>\<close>

definition beep :: "real \<Rightarrow> real \<Rightarrow> real \<Rightarrow> real \<Rightarrow> state \<Rightarrow> state" where
  "beep currentTime vol freq duration s =
     s\<lparr>audio := audio s @
        [\<lparr>beep_at = currentTime, beep_vol = vol, beep_freq = freq, beep_duration = duration\<rparr>]\<rparr>"

definition drawGraph :: "real list \<Rightarrow> state \<Rightarrow> state" where
  "drawGraph dat s = s\<lparr>chartData := dat\<rparr>"

subsection \<open>\<^verbatim>\<open>updateGraph\<close>\<close>

text \<open>
  The body of the \<^verbatim>\<open>map\<close> callback: filter the history to the retention window,
  then \<^verbatim>\<open>reduce\<close> to the sum and divide, or 0 when nothing is left. The length of
  an array is an integer far below \<open>2 ^ 53\<close>, so its conversion to a number is exact.
\<close>

definition avgY :: "(real \<Rightarrow> real) \<Rightarrow> real \<Rightarrow> entry list \<Rightarrow> real" where
  "avgY rnd currentTime h =
     (let filteredData =
            filter (\<lambda>d. fsub rnd currentTime (entry_time d) < DATA_RETENTION_WINDOW) h
      in if length filteredData = 0 then 0
         else fdiv rnd (foldl (\<lambda>acc d. fadd rnd acc (entry_y d)) 0 filteredData)
                (real (length filteredData)))"

definition graphData :: "(real \<Rightarrow> real) \<Rightarrow> real \<Rightarrow> (nat \<Rightarrow> entry list) \<Rightarrow> real list" where
  "graphData rnd currentTime kd = map (\<lambda>point. avgY rnd currentTime (kd point)) tracked"

text \<open>The two nested \<^verbatim>\<open>forEach\<close> loops that push onto \<^verbatim>\<open>dataLast1Sec\<close>.\<close>

definition pushLast1Sec :: "(real \<Rightarrow> real) \<Rightarrow> real \<Rightarrow> real list \<Rightarrow> entry \<Rightarrow> real list" where
  "pushLast1Sec rnd currentTime acc e =
     (if fsub rnd currentTime (entry_time e) < 1000 then acc @ [entry_y e] else acc)"

definition dataLast1Sec :: "(real \<Rightarrow> real) \<Rightarrow> real \<Rightarrow> (nat \<Rightarrow> entry list) \<Rightarrow> real list" where
  "dataLast1Sec rnd currentTime kd =
     foldl (\<lambda>acc point. foldl (pushLast1Sec rnd currentTime) acc (kd point)) [] tracked"

definition updateGraph :: "(real \<Rightarrow> real) \<Rightarrow> real \<Rightarrow> state \<Rightarrow> state" where
  "updateGraph rnd currentTime s =
     (let s1 = drawGraph (graphData rnd currentTime (keypointsData s)) s;
          d = dataLast1Sec rnd currentTime (keypointsData s1)
      in if length d > 0 then
           (let avgLast1Sec = fdiv rnd (foldl (\<lambda>a b. fadd rnd a b) 0 d) (real (length d))
            in if alertEnabled s1 \<and> avgLast1Sec > threshold s1 then
                 (if fsub rnd currentTime (lastBeepTime s1) > 1000
                  then (beep currentTime 0.2 440 300 s1)\<lparr>lastBeepTime := currentTime\<rparr>
                  else s1)
               else s1)
         else s1)"

subsection \<open>\<^verbatim>\<open>updateKeypointsData\<close>\<close>

text \<open>\<^verbatim>\<open>keypoints[point]\<close>: an index past the end of the array reads \<^verbatim>\<open>undefined\<close>.\<close>

definition kp_at :: "keypoint option list \<Rightarrow> nat \<Rightarrow> keypoint option" where
  "kp_at ks point = (if point < length ks then ks ! point else None)"

text \<open>The body of the \<^verbatim>\<open>forEach\<close> callback: push, then filter, both under the guard.\<close>

definition ingestPoint ::
  "(real \<Rightarrow> real) \<Rightarrow> real \<Rightarrow> keypoint option list \<Rightarrow> state \<Rightarrow> nat \<Rightarrow> state" where
  "ingestPoint rnd currentTime ks s point =
     (case kp_at ks point of
        None \<Rightarrow> s
      | Some k \<Rightarrow>
          (let pushed = keypointsData s point @ [\<lparr>entry_time = currentTime, entry_y = kp_y k\<rparr>]
           in s\<lparr>keypointsData := (keypointsData s)
                  (point := filter
                     (\<lambda>d. fsub rnd currentTime (entry_time d) < DATA_RETENTION_WINDOW)
                     pushed)\<rparr>))"

text \<open>
  The part of \<^verbatim>\<open>updateKeypointsData\<close> before its call of \<^verbatim>\<open>updateGraph\<close>.
  \<^verbatim>\<open>poses\<close> is \<^verbatim>\<open>null\<close> (\<open>None\<close>) when the detector failed, else an array.
\<close>

definition ingest :: "(real \<Rightarrow> real) \<Rightarrow> real \<Rightarrow> pose list option \<Rightarrow> state \<Rightarrow> state" where
  "ingest rnd currentTime poses s =
     (case poses of
        None \<Rightarrow> s
      | Some [] \<Rightarrow> s
      | Some (p # _) \<Rightarrow> foldl (ingestPoint rnd currentTime (keypoints p)) s tracked)"

text \<open>
  \<open>currentTime\<close> is the clock value read by \<^verbatim>\<open>updateKeypointsData\<close>, \<open>graphTime\<close>
  the one read by the \<^verbatim>\<open>updateGraph\<close> it calls.
\<close>

definition updateKeypointsData ::
  "(real \<Rightarrow> real) \<Rightarrow> real \<Rightarrow> real \<Rightarrow> pose list option \<Rightarrow> state \<Rightarrow> state" where
  "updateKeypointsData rnd currentTime graphTime poses s =
     updateGraph rnd graphTime (ingest rnd currentTime poses s)"

subsection \<open>The event loop\<close>

text \<open>
  What changes the state: a rendered frame (\<^verbatim>\<open>renderResult\<close> calls
  \<^verbatim>\<open>updateKeypointsData(poses)\<close>), an \<^verbatim>\<open>input\<close> event of the slider and a click
  on the toggle button (\<^verbatim>\<open>setupThresholdControls\<close>).
\<close>

datatype event =
  Frame real real "pose list option"
| SliderInput real
| ToggleClick

fun handle :: "(real \<Rightarrow> real) \<Rightarrow> state \<Rightarrow> event \<Rightarrow> state" where
  "handle rnd s (Frame currentTime graphTime poses) =
     updateKeypointsData rnd currentTime graphTime poses s"
| "handle rnd s (SliderInput v) = s\<lparr>threshold := v\<rparr>"
| "handle rnd s ToggleClick = s\<lparr>alertEnabled := \<not> alertEnabled s\<rparr>"

definition run :: "(real \<Rightarrow> real) \<Rightarrow> state \<Rightarrow> event list \<Rightarrow> state" where
  "run rnd s evs = foldl (handle rnd) s evs"

subsection \<open>Derived notions used in the statements\<close>

text \<open>
  The mean of a list as both \<^verbatim>\<open>reduce\<close> expressions of \<^verbatim>\<open>updateGraph\<close> compute
  it: the sum accumulated from 0, left to right, each addition rounded, then divided by the
  length and rounded.
\<close>

definition fmean :: "(real \<Rightarrow> real) \<Rightarrow> real list \<Rightarrow> real" where
  "fmean rnd ys = fdiv rnd (foldl (\<lambda>a b. fadd rnd a b) 0 ys) (real (length ys))"

text \<open>
  The conjunction of the guards on the path of \<^verbatim>\<open>updateGraph\<close> that reaches
  \<^verbatim>\<open>beep\<close>.
\<close>

definition alertFires :: "(real \<Rightarrow> real) \<Rightarrow> real \<Rightarrow> state \<Rightarrow> bool" where
  "alertFires rnd currentTime s =
     (dataLast1Sec rnd currentTime (keypointsData s) \<noteq> [] \<and> alertEnabled s \<and>
      fmean rnd (dataLast1Sec rnd currentTime (keypointsData s)) > threshold s \<and>
      fsub rnd currentTime (lastBeepTime s) > 1000)"

text \<open>
  What \<^verbatim>\<open>updateKeypointsData\<close> can see of its argument: nothing when there is no
  pose, else for each tracked index whether the first pose has a keypoint there and its
  \<^verbatim>\<open>y\<close>.
\<close>

definition readPart :: "pose list option \<Rightarrow> real option list" where
  "readPart poses =
     (case poses of
        None \<Rightarrow> []
      | Some [] \<Rightarrow> []
      | Some (p # _) \<Rightarrow> map (\<lambda>point. map_option kp_y (kp_at (keypoints p) point)) tracked)"

text \<open>The beeps of the log that were added after the log had \<open>n\<close> entries.\<close>

definition beepsSince :: "nat \<Rightarrow> state \<Rightarrow> beep_call list" where
  "beepsSince n s = drop n (audio s)"

text \<open>
  Inputs for the concrete runs below: a pose whose only keypoint is index 0, at height
  \<open>v\<close>; the event sequence that switches the alert on and then delivers two frames
  with keypoint 0 at height 400, at clock values \<open>T\<close> and \<open>T + 500\<close>; the double
  nearest to 204.8; and a pose with the five tracked keypoints at the doubles nearest to
  315.5, 300.5, 294.2, 291.1 and 298.7.
\<close>

definition pose_kp0 :: "real \<Rightarrow> pose" where
  "pose_kp0 v = \<lparr>keypoints = [Some \<lparr>kp_x = 0, kp_y = v, kp_score = 1\<rparr>]\<rparr>"

definition scenario :: "real \<Rightarrow> event list" where
  "scenario T =
     [ToggleClick, Frame T T (Some [pose_kp0 400]),
      Frame (T + 500) (T + 500) (Some [pose_kp0 400])]"


definition pose_five :: pose where
  "pose_five =
     \<lparr>keypoints =
        [Some \<lparr>kp_x = 0, kp_y = 631 / 2, kp_score = 1\<rparr>,
         Some \<lparr>kp_x = 0, kp_y = 601 / 2, kp_score = 1\<rparr>,
         Some \<lparr>kp_x = 0, kp_y = 5175621134267187 / 17592186044416, kp_score = 1\<rparr>,
         Some \<lparr>kp_x = 0, kp_y = 2560542678764749 / 8796093022208, kp_score = 1\<rparr>,
         Some \<lparr>kp_x = 0, kp_y = 5254785971467059 / 17592186044416, kp_score = 1\<rparr>]\<rparr>"

section \<open>Auxiliary facts\<close>

subsection \<open>Rounding to the nearest integer\<close>

lemma round_even_of_int: "round_even (real_of_int n) = n"
  by (simp add: round_even_def)

lemma round_even_floor_le: "\<lfloor>x\<rfloor> \<le> round_even x"
  by (simp add: round_even_def Let_def)

lemma round_even_le_floor: "round_even x \<le> \<lfloor>x\<rfloor> + 1"
  by (simp add: round_even_def Let_def)

lemma round_even_mono:
  assumes "x \<le> y"
  shows "round_even x \<le> round_even y"
proof (cases "\<lfloor>x\<rfloor> = \<lfloor>y\<rfloor>")
  case True
  with assms have "x - real_of_int \<lfloor>x\<rfloor> \<le> y - real_of_int \<lfloor>y\<rfloor>"
    by simp
  with True show ?thesis
    by (auto simp: round_even_def Let_def)
next
  case False
  with assms have "\<lfloor>x\<rfloor> < \<lfloor>y\<rfloor>"
    using floor_mono [of x y] by linarith
  then have "round_even x \<le> \<lfloor>y\<rfloor>"
    using round_even_le_floor [of x] by linarith
  then show ?thesis
    using round_even_floor_le [of y] by linarith
qed

lemma round_even_ge: "real_of_int a \<le> x \<Longrightarrow> a \<le> round_even x"
  using round_even_mono [of "real_of_int a" x] by (simp add: round_even_of_int)

lemma round_even_le: "x \<le> real_of_int b \<Longrightarrow> round_even x \<le> b"
  using round_even_mono [of x "real_of_int b"] by (simp add: round_even_of_int)

lemma two_powi_pos: "0 < (2::real) powi k"
  by simp

lemma two_powr_int: "(2::real) powr real_of_int k = 2 powi k"
  by (simp add: powr_real_of_int')

lemma two_powr_int_Suc: "(2::real) powr (real_of_int k + 1) = 2 powi (k + 1)"
  using two_powr_int [of "k + 1"] by simp

lemma floor_log2_bounds:
  assumes "0 < x"
  shows "2 powi \<lfloor>log 2 x\<rfloor> \<le> x" and "x < 2 powi (\<lfloor>log 2 x\<rfloor> + 1)"
proof -
  have "2 powr real_of_int \<lfloor>log 2 x\<rfloor> \<le> x \<and> x < 2 powr (real_of_int \<lfloor>log 2 x\<rfloor> + 1)"
    using floor_log_eq_powr_iff [of x 2 "\<lfloor>log 2 x\<rfloor>"] assms by simp
  then show "2 powi \<lfloor>log 2 x\<rfloor> \<le> x" and "x < 2 powi (\<lfloor>log 2 x\<rfloor> + 1)"
    by (simp_all add: two_powr_int two_powr_int_Suc)
qed

lemma floor_log2_eq:
  assumes "0 < x" "2 powi k \<le> x" "x < 2 powi (k + 1)"
  shows "\<lfloor>log 2 x\<rfloor> = k"
proof -
  have "2 powr real_of_int k \<le> x \<and> x < 2 powr (real_of_int k + 1)"
    using assms by (simp add: two_powr_int two_powr_int_Suc)
  then show ?thesis
    using floor_log_eq_powr_iff [of x 2 k] assms(1) by simp
qed

subsection \<open>\<open>binary64\<close> is monotone\<close>

lemma binary64_pos:
  "0 < x \<Longrightarrow> binary64 x =
     real_of_int (round_even (x / 2 powi ulp_exponent x)) * 2 powi ulp_exponent x"
  by (simp add: binary64_def)

lemma ulp_exponent_minus: "ulp_exponent (- x) = ulp_exponent x"
  by (simp add: ulp_exponent_def)

lemma binary64_neg: "x < 0 \<Longrightarrow> binary64 x = - binary64 (- x)"
  by (simp add: binary64_def ulp_exponent_minus)

lemma binary64_nonneg: "0 \<le> x \<Longrightarrow> 0 \<le> binary64 x"
proof (cases "x = 0")
  case True
  then show ?thesis by (simp add: binary64_def)
next
  case False
  assume "0 \<le> x"
  with False have x: "0 < x" by simp
  have "0 \<le> x / 2 powi ulp_exponent x"
    using x by simp
  then have "0 \<le> round_even (x / 2 powi ulp_exponent x)"
    using round_even_ge [of 0] by simp
  then show ?thesis
    by (simp add: binary64_pos [OF x])
qed

lemma ulp_exponent_mono:
  assumes "0 < x" "x \<le> y"
  shows "ulp_exponent x \<le> ulp_exponent y"
proof -
  have "log 2 x \<le> log 2 y"
    using assms by simp
  then have "\<lfloor>log 2 x\<rfloor> \<le> \<lfloor>log 2 y\<rfloor>"
    by (rule floor_mono)
  with assms show ?thesis
    by (simp add: ulp_exponent_def)
qed

text \<open>A positive number, divided by its unit in the last place, is below \<open>2 ^ 53\<close>.\<close>

lemma scaled_less:
  assumes "0 < x"
  shows "x / 2 powi ulp_exponent x < 2 ^ 53"
proof -
  have "\<lfloor>log 2 x\<rfloor> + 1 \<le> ulp_exponent x + 53"
    using assms by (simp add: ulp_exponent_def)
  then have "(2::real) powi (\<lfloor>log 2 x\<rfloor> + 1) \<le> 2 powi (ulp_exponent x + 53)"
    by (intro power_int_increasing) simp_all
  with floor_log2_bounds(2) [OF assms] have "x < 2 powi (ulp_exponent x + 53)"
    by linarith
  also have "\<dots> = 2 powi ulp_exponent x * 2 ^ 53"
    by (simp add: power_int_add)
  finally show ?thesis
    by (simp add: pos_divide_less_eq mult.commute)
qed

text \<open>In the normal range it is at least \<open>2 ^ 52\<close>.\<close>

lemma scaled_ge:
  assumes "0 < x" "- 1074 < ulp_exponent x"
  shows "2 ^ 52 \<le> x / 2 powi ulp_exponent x"
proof -
  from assms(2) have e: "ulp_exponent x = \<lfloor>log 2 x\<rfloor> - 52"
    using assms(1) by (simp add: ulp_exponent_def max_def split: if_splits)
  have "2 powi ulp_exponent x * 2 ^ 52 = (2::real) powi (ulp_exponent x + 52)"
    by (simp add: power_int_add)
  also have "\<dots> = 2 powi \<lfloor>log 2 x\<rfloor>"
    by (simp add: e)
  also have "\<dots> \<le> x"
    by (rule floor_log2_bounds(1) [OF assms(1)])
  finally show ?thesis
    by (simp add: pos_le_divide_eq mult.commute)
qed

lemma binary64_upper:
  assumes "0 < x"
  shows "binary64 x \<le> 2 powi (ulp_exponent x + 53)"
proof -
  have "x / 2 powi ulp_exponent x \<le> real_of_int (2 ^ 53)"
    using scaled_less [OF assms] by simp
  then have "round_even (x / 2 powi ulp_exponent x) \<le> 2 ^ 53"
    by (rule round_even_le)
  then have "real_of_int (round_even (x / 2 powi ulp_exponent x)) \<le> 2 ^ 53"
    by (metis of_int_le_iff of_int_numeral of_int_power)
  then have "binary64 x \<le> 2 ^ 53 * 2 powi ulp_exponent x"
    unfolding binary64_pos [OF assms] by (intro mult_right_mono) simp_all
  also have "\<dots> = 2 powi (ulp_exponent x + 53)"
    by (simp add: power_int_add)
  finally show ?thesis .
qed

lemma binary64_lower:
  assumes "0 < x" "- 1074 < ulp_exponent x"
  shows "2 powi (ulp_exponent x + 52) \<le> binary64 x"
proof -
  have "real_of_int (2 ^ 52) \<le> x / 2 powi ulp_exponent x"
    using scaled_ge [OF assms] by simp
  then have "2 ^ 52 \<le> round_even (x / 2 powi ulp_exponent x)"
    by (rule round_even_ge)
  then have "2 ^ 52 \<le> real_of_int (round_even (x / 2 powi ulp_exponent x))"
    by (metis of_int_le_iff of_int_numeral of_int_power)
  then have "2 ^ 52 * 2 powi ulp_exponent x \<le> binary64 x"
    unfolding binary64_pos [OF assms(1)] by (intro mult_right_mono) simp_all
  moreover have "2 ^ 52 * 2 powi ulp_exponent x = (2::real) powi (ulp_exponent x + 52)"
    by (simp add: power_int_add)
  ultimately show ?thesis by simp
qed

lemma ulp_exponent_ge: "- 1074 \<le> ulp_exponent x"
  by (simp add: ulp_exponent_def)

lemma binary64_mono_pos:
  assumes "0 < x" "x \<le> y"
  shows "binary64 x \<le> binary64 y"
proof -
  from assms have y: "0 < y" by simp
  have le: "ulp_exponent x \<le> ulp_exponent y"
    by (rule ulp_exponent_mono [OF assms])
  show ?thesis
  proof (cases "ulp_exponent x = ulp_exponent y")
    case True
    have "x / 2 powi ulp_exponent y \<le> y / 2 powi ulp_exponent y"
      using assms(2) by (simp add: divide_right_mono)
    then have "round_even (x / 2 powi ulp_exponent y) \<le> round_even (y / 2 powi ulp_exponent y)"
      by (rule round_even_mono)
    then have "real_of_int (round_even (x / 2 powi ulp_exponent y)) * 2 powi ulp_exponent y
        \<le> real_of_int (round_even (y / 2 powi ulp_exponent y)) * 2 powi ulp_exponent y"
      by (intro mult_right_mono) simp_all
    then show ?thesis
      by (simp add: binary64_pos [OF assms(1)] binary64_pos [OF y] True)
  next
    case False
    with le have lt: "ulp_exponent x < ulp_exponent y" by simp
    then have n: "- 1074 < ulp_exponent y"
      using ulp_exponent_ge [of x] by linarith
    have "binary64 x \<le> 2 powi (ulp_exponent x + 53)"
      by (rule binary64_upper [OF assms(1)])
    also have "\<dots> \<le> 2 powi (ulp_exponent y + 52)"
      using lt by (intro power_int_increasing) simp_all
    also have "\<dots> \<le> binary64 y"
      by (rule binary64_lower [OF y n])
    finally show ?thesis .
  qed
qed

lemma binary64_mono:
  assumes "x \<le> y"
  shows "binary64 x \<le> binary64 y"
proof -
  consider "0 < x" | "x \<le> 0" "0 \<le> y" | "y < 0"
    using assms by linarith
  then show ?thesis
  proof cases
    case 1
    then show ?thesis by (rule binary64_mono_pos [OF _ assms])
  next
    case 2
    have "binary64 x \<le> 0"
    proof (cases "x = 0")
      case True
      then show ?thesis by (simp add: binary64_def)
    next
      case False
      with 2 have "x < 0" by simp
      then show ?thesis
        using binary64_nonneg [of "- x"] by (simp add: binary64_neg)
    qed
    with binary64_nonneg [OF 2(2)] show ?thesis by linarith
  next
    case 3
    with assms have x: "x < 0" by simp
    have "binary64 (- y) \<le> binary64 (- x)"
      using 3 assms by (intro binary64_mono_pos) simp_all
    then show ?thesis
      by (simp add: binary64_neg [OF x] binary64_neg [OF 3])
  qed
qed

subsection \<open>\<open>binary64\<close> on a given binade and on integers\<close>

lemma ulp_exponent_eq:
  assumes "0 < x" "2 powi k \<le> x" "x < 2 powi (k + 1)" "- 1022 \<le> k"
  shows "ulp_exponent x = k - 52"
  using floor_log2_eq [OF assms(1-3)] assms(1,4) by (simp add: ulp_exponent_def)

lemma binary64_eval:
  assumes "0 < x" "2 powi k \<le> x" "x < 2 powi (k + 1)" "- 1022 \<le> k"
  shows "binary64 x = real_of_int (round_even (x / 2 powi (k - 52))) * 2 powi (k - 52)"
  by (simp add: binary64_pos [OF assms(1)] ulp_exponent_eq [OF assms])

lemma binary64_exact:
  assumes "0 < x" "x / 2 powi ulp_exponent x = real_of_int m"
  shows "binary64 x = x"
proof -
  have "binary64 x = real_of_int m * 2 powi ulp_exponent x"
    by (simp add: binary64_pos [OF assms(1)] assms(2) round_even_of_int)
  also have "\<dots> = x"
    using assms(2) by (simp add: field_simps)
  finally show ?thesis .
qed

lemma binary64_of_int_pos:
  assumes "0 < n" "n \<le> 2 ^ 53"
  shows "binary64 (real_of_int n) = real_of_int n"
proof -
  let ?x = "real_of_int n"
  let ?k = "\<lfloor>log 2 ?x\<rfloor>"
  have x: "0 < ?x" "1 \<le> ?x" using assms(1) by simp_all
  have "0 \<le> log 2 ?x" using x(2) by simp
  then have k0: "0 \<le> ?k" by simp
  have ax: "\<bar>?x\<bar> = ?x" using x(1) by simp
  from k0 have e: "ulp_exponent ?x = ?k - 52"
    unfolding ulp_exponent_def ax by simp
  show ?thesis
  proof (cases "?k \<le> 52")
    case True
    have "?x / 2 powi (?k - 52) = ?x * 2 powi (52 - ?k)"
      by (simp add: power_int_diff field_simps)
    also have "\<dots> = ?x * 2 ^ nat (52 - ?k)"
      using True by (simp add: power_int_def)
    also have "\<dots> = real_of_int (n * 2 ^ nat (52 - ?k))"
      by simp
    finally show ?thesis
      using binary64_exact [OF x(1), of "n * 2 ^ nat (52 - ?k)"] by (simp add: e)
  next
    case False
    then have k: "53 \<le> ?k" by simp
    have "(2::real) powi 53 \<le> 2 powi ?k"
      using k by (intro power_int_increasing) simp_all
    also have "\<dots> \<le> ?x"
      by (rule floor_log2_bounds(1) [OF x(1)])
    finally have "(2::real) ^ 53 \<le> ?x" by simp
    then have "real_of_int (2 ^ 53) \<le> real_of_int n" by simp
    then have "2 ^ 53 \<le> n" by (simp only: of_int_le_iff)
    with assms(2) have n: "n = 2 ^ 53" by simp
    have x53: "?x = 2 powi 53" by (simp add: n)
    have "\<lfloor>log 2 ?x\<rfloor> = 53"
      by (rule floor_log2_eq [OF x(1)]) (simp_all add: x53)
    then have e1: "ulp_exponent ?x = 1" by (simp add: e)
    have "?x / 2 powi ulp_exponent ?x = real_of_int (2 ^ 52)"
      unfolding e1 by (simp add: n)
    then show ?thesis
      by (rule binary64_exact [OF x(1)])
  qed
qed

lemma binary64_of_int:
  assumes "\<bar>n\<bar> \<le> 2 ^ 53"
  shows "binary64 (real_of_int n) = real_of_int n"
proof -
  consider "n = 0" | "0 < n" | "n < 0" by linarith
  then show ?thesis
  proof cases
    case 1
    then show ?thesis by (simp add: binary64_def)
  next
    case 2
    with assms show ?thesis by (intro binary64_of_int_pos) simp_all
  next
    case 3
    with assms have "binary64 (real_of_int (- n)) = real_of_int (- n)"
      by (intro binary64_of_int_pos) simp_all
    with 3 show ?thesis
      using binary64_neg [of "real_of_int n"] by simp
  qed
qed

lemma rounding_binary64: "rounding binary64"
  unfolding rounding_def using binary64_mono binary64_of_int by blast


subsection \<open>Consequences of \<open>rounding\<close>\<close>

lemma rounding_mono: "rounding rnd \<Longrightarrow> x \<le> y \<Longrightarrow> rnd x \<le> rnd y"
  by (simp add: rounding_def)

lemma rounding_zero: "rounding rnd \<Longrightarrow> rnd 0 = 0"
  unfolding rounding_def by (metis abs_zero of_int_0 zero_le_numeral zero_le_power)

lemma rounding_numeral:
  assumes "rounding rnd" "numeral w \<le> (9007199254740992::int)"
  shows "rnd (numeral w) = numeral w"
proof -
  have "\<bar>numeral w :: int\<bar> \<le> 2 ^ 53"
    using assms(2) by simp
  with assms(1) have "rnd (real_of_int (numeral w)) = real_of_int (numeral w)"
    unfolding rounding_def by blast
  then show ?thesis by simp
qed

text \<open>A rounded value beyond an integer bound has an exact value beyond it.\<close>

lemma rounding_less_numeral:
  assumes "rounding rnd" "numeral w \<le> (9007199254740992::int)" "rnd x < numeral w"
  shows "x < numeral w"
proof (rule ccontr)
  assume "\<not> x < numeral w"
  then have "rnd (numeral w) \<le> rnd x"
    using rounding_mono [OF assms(1)] by simp
  with assms show False
    by (simp add: rounding_numeral)
qed

lemma rounding_greater_numeral:
  assumes "rounding rnd" "numeral w \<le> (9007199254740992::int)" "numeral w < rnd x"
  shows "numeral w < x"
proof (rule ccontr)
  assume "\<not> numeral w < x"
  then have "rnd x \<le> rnd (numeral w)"
    using rounding_mono [OF assms(1)] by simp
  with assms show False
    by (simp add: rounding_numeral)
qed

subsection \<open>The folds of \<^verbatim>\<open>updateGraph\<close> in closed form\<close>

lemma foldl_fadd_entry_y:
  "foldl (\<lambda>acc d. fadd rnd acc (entry_y d)) a xs = foldl (\<lambda>a b. fadd rnd a b) a (map entry_y xs)"
  by (induction xs arbitrary: a) simp_all



lemma foldl_pushLast1Sec:
  "foldl (pushLast1Sec rnd t) acc h =
     acc @ map entry_y (filter (\<lambda>e. rnd (t - entry_time e) < 1000) h)"
  by (induction h arbitrary: acc) (simp_all add: pushLast1Sec_def fsub_def)

lemma foldl_points_concat:
  "foldl (\<lambda>acc point. foldl (pushLast1Sec rnd t) acc (kd point)) acc ps =
     acc @ concat (map (\<lambda>point. map entry_y
                         (filter (\<lambda>e. rnd (t - entry_time e) < 1000) (kd point))) ps)"
  by (induction ps arbitrary: acc) (simp_all add: foldl_pushLast1Sec)

lemma dataLast1Sec_concat:
  "dataLast1Sec rnd t kd =
     concat (map (\<lambda>point. map entry_y
                    (filter (\<lambda>e. rnd (t - entry_time e) < 1000) (kd point))) tracked)"
  by (simp add: dataLast1Sec_def foldl_points_concat)

lemma avgY_fmean:
  "avgY rnd t h =
     (if filter (\<lambda>d. rnd (t - entry_time d) < 5000) h = [] then 0
      else fmean rnd (map entry_y (filter (\<lambda>d. rnd (t - entry_time d) < 5000) h)))"
  by (simp add: avgY_def DATA_RETENTION_WINDOW_def Let_def fmean_def fsub_def
      foldl_fadd_entry_y)


subsection \<open>A mean lies between the least and the greatest element\<close>





subsection \<open>\<^verbatim>\<open>updateGraph\<close> as one record update\<close>

lemma updateGraph_fires:
  "alertFires rnd t s \<Longrightarrow> updateGraph rnd t s =
     s\<lparr>lastBeepTime := t, chartData := graphData rnd t (keypointsData s),
       audio := audio s @
         [\<lparr>beep_at = t, beep_vol = 0.2, beep_freq = 440, beep_duration = 300\<rparr>]\<rparr>"
  by (simp add: updateGraph_def alertFires_def drawGraph_def beep_def Let_def fmean_def)

lemma updateGraph_quiet:
  "\<not> alertFires rnd t s \<Longrightarrow>
   updateGraph rnd t s = s\<lparr>chartData := graphData rnd t (keypointsData s)\<rparr>"
  by (auto simp add: updateGraph_def alertFires_def drawGraph_def beep_def Let_def fmean_def)

lemma updateGraph_history: "keypointsData (updateGraph rnd t s) = keypointsData s"
  by (cases "alertFires rnd t s") (simp_all add: updateGraph_fires updateGraph_quiet)

lemma updateGraph_audio:
  "audio (updateGraph rnd t s) =
     (if alertFires rnd t s
      then audio s @ [\<lparr>beep_at = t, beep_vol = 0.2, beep_freq = 440, beep_duration = 300\<rparr>]
      else audio s)"
  by (simp add: updateGraph_fires updateGraph_quiet)

lemma updateGraph_lastBeepTime:
  "lastBeepTime (updateGraph rnd t s) = (if alertFires rnd t s then t else lastBeepTime s)"
  by (simp add: updateGraph_fires updateGraph_quiet)

lemma updateGraph_settings:
  "threshold (updateGraph rnd t s) = threshold s"
  "alertEnabled (updateGraph rnd t s) = alertEnabled s"
  by (cases "alertFires rnd t s"; simp add: updateGraph_fires updateGraph_quiet)+

lemma updateGraph_chartData:
  "chartData (updateGraph rnd t s) = graphData rnd t (keypointsData s)"
  by (cases "alertFires rnd t s") (simp_all add: updateGraph_fires updateGraph_quiet)

subsection \<open>What \<^verbatim>\<open>updateKeypointsData\<close> does to the histories and to the other fields\<close>

lemma ingestPoint_other:
  "i \<noteq> point \<Longrightarrow> keypointsData (ingestPoint rnd t ks s point) i = keypointsData s i"
  by (simp add: ingestPoint_def Let_def split: option.splits)

lemma ingestPoint_same:
  "keypointsData (ingestPoint rnd t ks s point) point =
     (case kp_at ks point of
        None \<Rightarrow> keypointsData s point
      | Some k \<Rightarrow> filter (\<lambda>d. rnd (t - entry_time d) < 5000)
                   (keypointsData s point @ [\<lparr>entry_time = t, entry_y = kp_y k\<rparr>]))"
  by (simp add: ingestPoint_def Let_def DATA_RETENTION_WINDOW_def fsub_def split: option.splits)

lemma ingestPoint_frame:
  "threshold (ingestPoint rnd t ks s point) = threshold s"
  "alertEnabled (ingestPoint rnd t ks s point) = alertEnabled s"
  "lastBeepTime (ingestPoint rnd t ks s point) = lastBeepTime s"
  "chartData (ingestPoint rnd t ks s point) = chartData s"
  "audio (ingestPoint rnd t ks s point) = audio s"
  by (simp_all add: ingestPoint_def Let_def split: option.splits)

lemma foldl_ingestPoint_frame:
  "threshold (foldl (ingestPoint rnd t ks) s ps) = threshold s"
  "alertEnabled (foldl (ingestPoint rnd t ks) s ps) = alertEnabled s"
  "lastBeepTime (foldl (ingestPoint rnd t ks) s ps) = lastBeepTime s"
  "chartData (foldl (ingestPoint rnd t ks) s ps) = chartData s"
  "audio (foldl (ingestPoint rnd t ks) s ps) = audio s"
  by (induction ps arbitrary: s) (simp_all add: ingestPoint_frame)

lemma foldl_ingestPoint_history:
  "distinct ps \<Longrightarrow>
   keypointsData (foldl (ingestPoint rnd t ks) s ps) i =
     (if i \<in> set ps then keypointsData (ingestPoint rnd t ks s i) i else keypointsData s i)"
proof (induction ps arbitrary: s)
  case Nil
  then show ?case by simp
next
  case (Cons p ps)
  show ?case
  proof (cases "i = p")
    case True
    with Cons show ?thesis by simp
  next
    case False
    with Cons show ?thesis
      by (simp add: ingestPoint_other ingestPoint_same split: option.splits)
  qed
qed

lemma ingest_frame:
  "threshold (ingest rnd t poses s) = threshold s"
  "alertEnabled (ingest rnd t poses s) = alertEnabled s"
  "lastBeepTime (ingest rnd t poses s) = lastBeepTime s"
  "chartData (ingest rnd t poses s) = chartData s"
  "audio (ingest rnd t poses s) = audio s"
  by (simp_all add: ingest_def foldl_ingestPoint_frame split: option.splits list.splits)

text \<open>The history of an index after the ingesting part, for any rounding.\<close>

lemma ingest_history_raw:
  "keypointsData (ingest rnd t poses s) i =
     (case poses of
        None \<Rightarrow> keypointsData s i
      | Some [] \<Rightarrow> keypointsData s i
      | Some (p # _) \<Rightarrow>
          (if i < 5 then
             (case kp_at (keypoints p) i of
                None \<Rightarrow> keypointsData s i
              | Some k \<Rightarrow> filter (\<lambda>d. rnd (t - entry_time d) < 5000)
                           (keypointsData s i @ [\<lparr>entry_time = t, entry_y = kp_y k\<rparr>]))
           else keypointsData s i))"
proof -
  have d: "distinct tracked" and m: "i \<in> set tracked \<longleftrightarrow> i < 5"
    by (auto simp: tracked_def)
  show ?thesis
    by (simp add: ingest_def foldl_ingestPoint_history [OF d] m ingestPoint_same
        split: option.splits list.splits)
qed

text \<open>The entry just pushed passes the filter: its age is \<open>rnd 0 = 0\<close>.\<close>

lemma ingest_history:
  assumes "rounding rnd"
  shows "keypointsData (ingest rnd t poses s) i =
     (case poses of
        None \<Rightarrow> keypointsData s i
      | Some [] \<Rightarrow> keypointsData s i
      | Some (p # _) \<Rightarrow>
          (if i < 5 then
             (case kp_at (keypoints p) i of
                None \<Rightarrow> keypointsData s i
              | Some k \<Rightarrow> filter (\<lambda>d. rnd (t - entry_time d) < 5000) (keypointsData s i)
                          @ [\<lparr>entry_time = t, entry_y = kp_y k\<rparr>])
           else keypointsData s i))"
  by (simp add: ingest_history_raw rounding_zero [OF assms] split: option.splits list.splits)

subsection \<open>Reading the concrete poses\<close>

lemma kp_at_pose_kp0:
  "kp_at (keypoints (pose_kp0 v)) i = (if i = 0 then Some \<lparr>kp_x = 0, kp_y = v, kp_score = 1\<rparr> else None)"
  by (simp add: kp_at_def pose_kp0_def)

lemma kp_at_Nil: "kp_at [] i = None"
  by (simp add: kp_at_def)

subsection \<open>Histories and pooled values when only keypoint 0 was ever seen\<close>

lemma kd_first_frame:
  "rounding rnd \<Longrightarrow> keypointsData s = (\<lambda>_. []) \<Longrightarrow>
   keypointsData (ingest rnd T (Some [pose_kp0 v]) s) i =
     (if i = 0 then [\<lparr>entry_time = T, entry_y = v\<rparr>] else [])"
  by (simp add: ingest_history kp_at_pose_kp0)

lemma pooled_one_history:
  "(\<And>i. i \<noteq> 0 \<Longrightarrow> kd i = []) \<Longrightarrow>
   dataLast1Sec rnd t kd = map entry_y (filter (\<lambda>e. rnd (t - entry_time e) < 1000) (kd 0))"
  by (simp add: dataLast1Sec_concat tracked_def)

lemma fmean_400:
  assumes "rounding rnd"
  shows "fmean rnd [400] = 400" and "fmean rnd [400, 400] = 400"
  by (simp_all add: fmean_def fdiv_def fadd_def rounding_numeral [OF assms])

subsection \<open>The two-frame scenario, step by step\<close>

text \<open>
  The pooled values at the two calls of \<^verbatim>\<open>updateGraph\<close> and the clock values of the
  beeps, for every clock value \<open>T\<close> of the first frame such that \<open>T\<close> and \<open>T + 500\<close> are
  not changed by rounding.
\<close>

lemma scenario_trace:
  fixes T :: real
  assumes r: "rounding rnd" and rT: "rnd T = T" and rT5: "rnd (T + 500) = T + 500"
  defines "s1 \<equiv> run rnd initial_state (take 2 (scenario T))"
    and "s2 \<equiv> run rnd initial_state (scenario T)"
  shows "dataLast1Sec rnd T (keypointsData s1) = [400]"
    and "dataLast1Sec rnd (T + 500) (keypointsData s2) = [400, 400]"
    and "threshold s1 = 300" and "threshold s2 = 300"
    and "map beep_at (audio s2) =
           (if 1000 < T then [T] else if 500 < T then [T + 500] else [])"
proof -
  note rz = rounding_zero [OF r] and rn = rounding_numeral [OF r]
  define s0 where "s0 = handle rnd initial_state ToggleClick"
  define i1 where "i1 = ingest rnd T (Some [pose_kp0 400]) s0"
  define u1 where "u1 = updateGraph rnd T i1"
  define i2 where "i2 = ingest rnd (T + 500) (Some [pose_kp0 400]) u1"
  define u2 where "u2 = updateGraph rnd (T + 500) i2"
  have s1: "s1 = u1"
    by (simp add: s1_def scenario_def run_def updateKeypointsData_def u1_def i1_def s0_def)
  have s2: "s2 = u2"
    by (simp add: s2_def scenario_def run_def updateKeypointsData_def u2_def i2_def u1_def
        i1_def s0_def)
  have s0: "alertEnabled s0" "threshold s0 = 300" "lastBeepTime s0 = 0" "audio s0 = []"
    "keypointsData s0 = (\<lambda>_. [])"
    by (simp_all add: s0_def initial_state_def)
  have i1: "alertEnabled i1" "threshold i1 = 300" "lastBeepTime i1 = 0" "audio i1 = []"
    by (simp_all add: i1_def ingest_frame s0)
  have k1: "keypointsData i1 i = (if i = 0 then [\<lparr>entry_time = T, entry_y = 400\<rparr>] else [])"
    for i
    unfolding i1_def by (rule kd_first_frame [OF r]) (rule s0)
  have p1: "dataLast1Sec rnd T (keypointsData i1) = [400]"
    by (subst pooled_one_history) (simp_all add: k1 rz)
  have f1: "alertFires rnd T i1 \<longleftrightarrow> 1000 < T"
    by (simp add: alertFires_def p1 i1 fmean_400 [OF r] fsub_def rT)
  have u1: "alertEnabled u1" "threshold u1 = 300"
    "lastBeepTime u1 = (if 1000 < T then T else 0)"
    "map beep_at (audio u1) = (if 1000 < T then [T] else [])"
    "keypointsData u1 = keypointsData i1"
    by (simp_all add: u1_def updateGraph_settings updateGraph_lastBeepTime updateGraph_audio
        updateGraph_history i1 f1)
  have i2: "alertEnabled i2" "threshold i2 = 300"
    "lastBeepTime i2 = (if 1000 < T then T else 0)"
    "map beep_at (audio i2) = (if 1000 < T then [T] else [])"
    by (simp_all add: i2_def ingest_frame u1)
  have k2: "keypointsData i2 i =
      (if i = 0 then [\<lparr>entry_time = T, entry_y = 400\<rparr>, \<lparr>entry_time = T + 500, entry_y = 400\<rparr>]
       else [])" for i
    by (simp add: i2_def ingest_history [OF r] kp_at_pose_kp0 u1 k1 rn)
  have p2: "dataLast1Sec rnd (T + 500) (keypointsData i2) = [400, 400]"
    by (subst pooled_one_history) (simp_all add: k2 rn rz)
  have f2: "alertFires rnd (T + 500) i2 \<longleftrightarrow> \<not> 1000 < T \<and> 500 < T"
    by (auto simp add: alertFires_def p2 i2 fmean_400 [OF r] fsub_def rn rT5)
  have a2: "map beep_at (audio u2) =
      (if 1000 < T then [T] else if 500 < T then [T + 500] else [])"
    by (simp add: u2_def updateGraph_audio f2 i2)
  show "dataLast1Sec rnd T (keypointsData s1) = [400]"
    by (simp add: s1 u1 p1)
  show "dataLast1Sec rnd (T + 500) (keypointsData s2) = [400, 400]"
    by (simp add: s2 u2_def updateGraph_history p2)
  show "threshold s1 = 300" by (simp add: s1 u1)
  show "threshold s2 = 300" by (simp add: s2 u2_def updateGraph_settings i2)
  show "map beep_at (audio s2) =
           (if 1000 < T then [T] else if 500 < T then [T + 500] else [])"
    by (simp add: s2 a2)
qed

subsection \<open>The chart series, index by index\<close>

lemma tracked_nth: "i < 5 \<Longrightarrow> tracked ! i = i"
proof -
  assume "i < 5"
  then have "i = 0 \<or> i = 1 \<or> i = 2 \<or> i = 3 \<or> i = 4" by arith
  then show ?thesis by (auto simp: tracked_def)
qed

lemma length_tracked: "length tracked = 5"
  by (simp add: tracked_def)



lemma graphData_empty:
  "(\<And>i. i < 5 \<Longrightarrow> kd i = []) \<Longrightarrow> graphData rnd t kd = [0, 0, 0, 0, 0]"
  by (simp add: graphData_def tracked_def avgY_def)

lemma dataLast1Sec_empty: "(\<And>i. i < 5 \<Longrightarrow> kd i = []) \<Longrightarrow> dataLast1Sec rnd t kd = []"
  by (simp add: dataLast1Sec_concat tracked_def)


text \<open>Chart series and pool read the histories 0..4 only.\<close>

lemma graphData_cong:
  "(\<And>i. i < 5 \<Longrightarrow> kd i = kd' i) \<Longrightarrow> graphData rnd t kd = graphData rnd t kd'"
  by (simp add: graphData_def tracked_def)

lemma dataLast1Sec_cong:
  "(\<And>i. i < 5 \<Longrightarrow> kd i = kd' i) \<Longrightarrow> dataLast1Sec rnd t kd = dataLast1Sec rnd t kd'"
  by (simp add: dataLast1Sec_concat tracked_def)

subsection \<open>The log of beeps along a run\<close>

text \<open>
  One event adds at most one beep; a beep it adds is more than 1000 ms after the old
  \<open>lastBeepTime\<close> and becomes the new one.
\<close>

lemma handle_log:
  assumes "rounding rnd"
  shows "(audio (handle rnd s e) = audio s \<and> lastBeepTime (handle rnd s e) = lastBeepTime s)
   \<or> (\<exists>b. audio (handle rnd s e) = audio s @ [b] \<and> beep_at b = lastBeepTime (handle rnd s e)
          \<and> 1000 < beep_at b - lastBeepTime s)"
proof (cases e)
  case (Frame c g poses)
  show ?thesis
  proof (cases "alertFires rnd g (ingest rnd c poses s)")
    case True
    then have "1000 < rnd (g - lastBeepTime s)"
      by (simp add: alertFires_def ingest_frame fsub_def)
    then have "1000 < g - lastBeepTime s"
      by (rule rounding_greater_numeral [OF assms, rotated]) simp
    with True show ?thesis
      by (simp add: Frame updateKeypointsData_def updateGraph_audio updateGraph_lastBeepTime
          ingest_frame)
  next
    case False
    then show ?thesis
      by (simp add: Frame updateKeypointsData_def updateGraph_audio updateGraph_lastBeepTime
          ingest_frame)
  qed
next
  case (SliderInput v)
  then show ?thesis by simp
next
  case ToggleClick
  then show ?thesis by simp
qed

lemma run_snoc: "run rnd s (evs @ [e]) = handle rnd (run rnd s evs) e"
  by (simp add: run_def)

text \<open>
  Along a run the added beeps are pairwise more than 1000 ms apart and none is later than
  \<open>lastBeepTime\<close>.
\<close>

lemma run_log:
  assumes r: "rounding rnd"
  shows "\<exists>new. audio (run rnd s evs) = audio s @ new
     \<and> sorted_wrt (\<lambda>a b. 1000 < beep_at b - beep_at a) new
     \<and> (\<forall>b \<in> set new. beep_at b \<le> lastBeepTime (run rnd s evs))"
proof (induction evs rule: rev_induct)
  case Nil
  show ?case by (simp add: run_def)
next
  case (snoc e evs)
  then obtain new where a: "audio (run rnd s evs) = audio s @ new"
    and sp: "sorted_wrt (\<lambda>a b. 1000 < beep_at b - beep_at a) new"
    and le: "\<forall>b \<in> set new. beep_at b \<le> lastBeepTime (run rnd s evs)"
    by blast
  from handle_log [OF r, of "run rnd s evs" e] show ?case
  proof
    assume "audio (handle rnd (run rnd s evs) e) = audio (run rnd s evs)
      \<and> lastBeepTime (handle rnd (run rnd s evs) e) = lastBeepTime (run rnd s evs)"
    with a sp le show ?thesis
      by (simp add: run_snoc)
  next
    assume "\<exists>b. audio (handle rnd (run rnd s evs) e) = audio (run rnd s evs) @ [b]
      \<and> beep_at b = lastBeepTime (handle rnd (run rnd s evs) e)
      \<and> 1000 < beep_at b - lastBeepTime (run rnd s evs)"
    then obtain b where b: "audio (handle rnd (run rnd s evs) e) = audio (run rnd s evs) @ [b]"
      and at: "beep_at b = lastBeepTime (handle rnd (run rnd s evs) e)"
      and gap: "1000 < beep_at b - lastBeepTime (run rnd s evs)"
      by blast
    have far: "\<forall>x \<in> set new. 1000 < beep_at b - beep_at x"
    proof
      fix x assume "x \<in> set new"
      with le have "beep_at x \<le> lastBeepTime (run rnd s evs)" by blast
      with gap show "1000 < beep_at b - beep_at x" by linarith
    qed
    have "audio (run rnd s (evs @ [e])) = audio s @ (new @ [b])"
      by (simp add: run_snoc b a)
    moreover have "sorted_wrt (\<lambda>a b. 1000 < beep_at b - beep_at a) (new @ [b])"
      using sp far by (simp add: sorted_wrt_append)
    moreover have "\<forall>x \<in> set (new @ [b]). beep_at x \<le> lastBeepTime (run rnd s (evs @ [e]))"
    proof
      fix x assume "x \<in> set (new @ [b])"
      then have "x = b \<or> x \<in> set new" by auto
      then show "beep_at x \<le> lastBeepTime (run rnd s (evs @ [e]))"
      proof
        assume "x = b"
        then show ?thesis by (simp add: run_snoc at)
      next
        assume "x \<in> set new"
        with far have "1000 < beep_at b - beep_at x" by blast
        then show ?thesis by (simp add: run_snoc at [symmetric])
      qed
    qed
    ultimately show ?thesis by blast
  qed
qed

lemma two_beeps:
  assumes r: "rounding rnd"
  shows "map beep_at (audio (run rnd initial_state
      (scenario 2000 @ [Frame 3200 3200 (Some [pose_kp0 400])]))) = [2000, 3200]"
  by (simp add: run_def scenario_def updateKeypointsData_def updateGraph_audio
      updateGraph_lastBeepTime updateGraph_history updateGraph_settings alertFires_def
      ingest_frame ingest_history [OF r] kp_at_pose_kp0 dataLast1Sec_concat tracked_def
      initial_state_def fmean_def fdiv_def fadd_def fsub_def rounding_numeral [OF r]
      rounding_zero [OF r])

subsection \<open>The ingesting part depends on the poses through \<open>readPart\<close> only\<close>

lemma ingest_by_readPart:
  "ingest rnd c poses s =
     s\<lparr>keypointsData := (\<lambda>i.
          if i < length (readPart poses) then
            (case readPart poses ! i of
               None \<Rightarrow> keypointsData s i
             | Some v \<Rightarrow> filter (\<lambda>d. rnd (c - entry_time d) < 5000)
                          (keypointsData s i @ [\<lparr>entry_time = c, entry_y = v\<rparr>]))
          else keypointsData s i)\<rparr>"
proof (rule state.equality)
  show "keypointsData (ingest rnd c poses s) =
    keypointsData (s\<lparr>keypointsData := (\<lambda>i.
          if i < length (readPart poses) then
            (case readPart poses ! i of
               None \<Rightarrow> keypointsData s i
             | Some v \<Rightarrow> filter (\<lambda>d. rnd (c - entry_time d) < 5000)
                          (keypointsData s i @ [\<lparr>entry_time = c, entry_y = v\<rparr>]))
          else keypointsData s i)\<rparr>)"
  proof (rule ext)
    fix i
    show "keypointsData (ingest rnd c poses s) i =
      keypointsData (s\<lparr>keypointsData := (\<lambda>i.
          if i < length (readPart poses) then
            (case readPart poses ! i of
               None \<Rightarrow> keypointsData s i
             | Some v \<Rightarrow> filter (\<lambda>d. rnd (c - entry_time d) < 5000)
                          (keypointsData s i @ [\<lparr>entry_time = c, entry_y = v\<rparr>]))
          else keypointsData s i)\<rparr>) i"
      by (simp add: ingest_history_raw readPart_def length_tracked tracked_nth
          split: option.splits list.splits)
  qed
qed (simp_all add: ingest_frame)

subsection \<open>Three additions and a division in \<open>binary64\<close>\<close>






subsection \<open>Five additions and a division in \<open>binary64\<close>\<close>

text \<open>
  The heights of \<open>pose_five\<close> are the doubles nearest to 315.5, 300.5, 294.2, 291.1 and
  298.7. Their exact sum is 1500, their exact mean 300; summed and divided as the code
  does, they give the double above 300.
\<close>

lemma binary64_half_a: "binary64 (631 / 2) = 631 / 2"
  by (subst binary64_eval [where k = 8]) (simp_all add: round_even_def)

lemma binary64_sum2: "binary64 (631 / 2 + 601 / 2) = 616"
  by (simp add: rounding_numeral [OF rounding_binary64])

lemma binary64_sum3:
  "binary64 (616 + 5175621134267187 / 17592186044416) = 4003101934406861 / 4398046511104"
  by (subst binary64_eval [where k = 9]) (simp_all add: round_even_def)

lemma binary64_sum4:
  "binary64 (4003101934406861 / 4398046511104 + 2560542678764749 / 8796093022208)
     = 1320843318447309 / 1099511627776"
  by (subst binary64_eval [where k = 10]) (simp_all add: round_even_def)

lemma binary64_sum5:
  "binary64 (1320843318447309 / 1099511627776 + 5254785971467059 / 17592186044416)
     = 6597069766656001 / 4398046511104"
  by (subst binary64_eval [where k = 10]) (simp_all add: round_even_def)

lemma binary64_fifth:
  "binary64 (6597069766656001 / 4398046511104 / 5) = 5277655813324801 / 17592186044416"
  by (subst binary64_eval [where k = 8]) (simp_all add: round_even_def)

lemma fmean_five:
  "fmean binary64
     [631 / 2, 601 / 2, 5175621134267187 / 17592186044416, 2560542678764749 / 8796093022208,
      5254785971467059 / 17592186044416]
   = 5277655813324801 / 17592186044416"
proof -
  have s: "foldl (\<lambda>a b. fadd binary64 a b) 0
      [631 / 2, 601 / 2, 5175621134267187 / 17592186044416,
       2560542678764749 / 8796093022208, 5254785971467059 / 17592186044416]
      = 6597069766656001 / 4398046511104"
    by (simp only: foldl.simps fadd_def add_0 binary64_half_a binary64_sum2 binary64_sum3
        binary64_sum4 binary64_sum5)
  have l: "real (length
      [631 / 2 :: real, 601 / 2, 5175621134267187 / 17592186044416,
       2560542678764749 / 8796093022208, 5254785971467059 / 17592186044416]) = 5"
    by simp
  show ?thesis
    unfolding fmean_def fdiv_def s l by (rule binary64_fifth)
qed

lemma kp_at_pose_five:
  "kp_at (keypoints pose_five) 0 = Some \<lparr>kp_x = 0, kp_y = 631 / 2, kp_score = 1\<rparr>"
  "kp_at (keypoints pose_five) (Suc 0) = Some \<lparr>kp_x = 0, kp_y = 601 / 2, kp_score = 1\<rparr>"
  "kp_at (keypoints pose_five) 2 =
     Some \<lparr>kp_x = 0, kp_y = 5175621134267187 / 17592186044416, kp_score = 1\<rparr>"
  "kp_at (keypoints pose_five) 3 =
     Some \<lparr>kp_x = 0, kp_y = 2560542678764749 / 8796093022208, kp_score = 1\<rparr>"
  "kp_at (keypoints pose_five) 4 =
     Some \<lparr>kp_x = 0, kp_y = 5254785971467059 / 17592186044416, kp_score = 1\<rparr>"
  by (simp_all add: kp_at_def pose_five_def)

lemma five_run:
  defines "s \<equiv> ingest binary64 2000 (Some [pose_five]) (handle binary64 initial_state ToggleClick)"
  shows "dataLast1Sec binary64 2000 (keypointsData s) =
      [631 / 2, 601 / 2, 5175621134267187 / 17592186044416, 2560542678764749 / 8796093022208,
       5254785971467059 / 17592186044416]"
    and "alertEnabled s" and "threshold s = 300" and "lastBeepTime s = 0" and "audio s = []"
proof -
  note r = rounding_binary64
  have k: "keypointsData s 0 = [\<lparr>entry_time = 2000, entry_y = 631 / 2\<rparr>]"
    "keypointsData s (Suc 0) = [\<lparr>entry_time = 2000, entry_y = 601 / 2\<rparr>]"
    "keypointsData s 2 = [\<lparr>entry_time = 2000, entry_y = 5175621134267187 / 17592186044416\<rparr>]"
    "keypointsData s 3 = [\<lparr>entry_time = 2000, entry_y = 2560542678764749 / 8796093022208\<rparr>]"
    "keypointsData s 4 = [\<lparr>entry_time = 2000, entry_y = 5254785971467059 / 17592186044416\<rparr>]"
    by (simp_all add: s_def ingest_history [OF r] kp_at_pose_five initial_state_def)
  show "dataLast1Sec binary64 2000 (keypointsData s) =
      [631 / 2, 601 / 2, 5175621134267187 / 17592186044416, 2560542678764749 / 8796093022208,
       5254785971467059 / 17592186044416]"
    by (simp add: dataLast1Sec_concat tracked_def k rounding_zero [OF r])
  show "alertEnabled s" and "threshold s = 300" and "lastBeepTime s = 0" and "audio s = []"
    by (simp_all add: s_def ingest_frame initial_state_def)
qed

section \<open>The claims\<close>

subsection \<open>C1: pruning to the retention window\<close>

text \<open>
  C1, as stated: after every call of \<^verbatim>\<open>updateKeypointsData\<close>, with any pose list,
  every entry of every history 0..4 satisfies \<open>currentTime - time < 5000\<close>, because the
  histories are pruned unconditionally.

  The code prunes inside the guard \<^verbatim>\<open>if (keypoints[point])\<close>, itself inside
  \<^verbatim>\<open>if (poses && poses.length > 0)\<close>. The run below, in double arithmetic, records
  keypoint 0 at clock value 0 and then receives, at clock value 6000, no pose (first
  conjunct) or a pose without keypoint 0 (second conjunct): the entry of time 0 is still in
  history 0, and it is 6000 ms old.
\<close>

theorem C1_counterexample:
  "\<lparr>entry_time = 0, entry_y = 400\<rparr> \<in> set (keypointsData
      (updateKeypointsData binary64 6000 6000 (Some [])
         (updateKeypointsData binary64 0 0 (Some [pose_kp0 400]) initial_state)) 0)
   \<and> \<lparr>entry_time = 0, entry_y = 400\<rparr> \<in> set (keypointsData
      (updateKeypointsData binary64 6000 6000 (Some [\<lparr>keypoints = []\<rparr>])
         (updateKeypointsData binary64 0 0 (Some [pose_kp0 400]) initial_state)) 0)
   \<and> \<not> (6000 - entry_time \<lparr>entry_time = 0, entry_y = 400\<rparr> < 5000)"
  by (simp add: updateKeypointsData_def updateGraph_history
      ingest_history [OF rounding_binary64] kp_at_pose_kp0 kp_at_Nil initial_state_def)

text \<open>
  C1, amended: when the first pose has a keypoint at a tracked index \<open>i\<close>, every entry of
  history \<open>i\<close> after the call satisfies \<open>currentTime - time < 5000\<close> (for every rounding
  that is monotone and exact on integers, so for doubles); the history of an index whose
  keypoint is absent, and every history when the pose list is empty or
  \<^verbatim>\<open>null\<close>, is left as it was (not pruned).
\<close>

theorem C1_pruned_when_present:
  "(rounding rnd \<and> i < 5 \<and> kp_at (keypoints p) i \<noteq> None \<longrightarrow>
      (\<forall>e \<in> set (keypointsData (updateKeypointsData rnd t g (Some (p # ps)) s) i).
         t - entry_time e < 5000))
   \<and> (kp_at (keypoints p) i = None \<longrightarrow>
        keypointsData (updateKeypointsData rnd t g (Some (p # ps)) s) i = keypointsData s i)
   \<and> keypointsData (updateKeypointsData rnd t g (Some []) s) = keypointsData s
   \<and> keypointsData (updateKeypointsData rnd t g None s) = keypointsData s"
proof -
  have "keypointsData (updateKeypointsData rnd t g (Some []) s) = keypointsData s"
    by (simp add: updateKeypointsData_def updateGraph_history ingest_def)
  moreover have "keypointsData (updateKeypointsData rnd t g None s) = keypointsData s"
    by (simp add: updateKeypointsData_def updateGraph_history ingest_def)
  moreover have "kp_at (keypoints p) i = None \<longrightarrow>
        keypointsData (updateKeypointsData rnd t g (Some (p # ps)) s) i = keypointsData s i"
    by (simp add: updateKeypointsData_def updateGraph_history ingest_history_raw)
  moreover have "rounding rnd \<and> i < 5 \<and> kp_at (keypoints p) i \<noteq> None \<longrightarrow>
      (\<forall>e \<in> set (keypointsData (updateKeypointsData rnd t g (Some (p # ps)) s) i).
         t - entry_time e < 5000)"
  proof (intro impI ballI)
    fix e
    assume h: "rounding rnd \<and> i < 5 \<and> kp_at (keypoints p) i \<noteq> None"
      and e: "e \<in> set (keypointsData (updateKeypointsData rnd t g (Some (p # ps)) s) i)"
    from h obtain k where k: "kp_at (keypoints p) i = Some k"
      by auto
    have "keypointsData (updateKeypointsData rnd t g (Some (p # ps)) s) i =
        filter (\<lambda>d. rnd (t - entry_time d) < 5000)
          (keypointsData s i @ [\<lparr>entry_time = t, entry_y = kp_y k\<rparr>])"
      using h k by (simp add: updateKeypointsData_def updateGraph_history ingest_history_raw)
    with e have "rnd (t - entry_time e) < 5000"
      by (simp del: filter_append)
    then show "t - entry_time e < 5000"
      by (rule rounding_less_numeral [OF conjunct1 [OF h], rotated]) simp
  qed
  ultimately show ?thesis by blast
qed

text \<open>
  The amended statement at a run from the initial state in double arithmetic: index 0
  present (its 6000 ms old entry is pruned), index 1 absent.
\<close>

theorem C1_pruned_when_present_witness:
  "rounding binary64 \<and> (0::nat) < 5 \<and> kp_at (keypoints (pose_kp0 410)) 0 \<noteq> None
   \<and> list_all (\<lambda>e. 6000 - entry_time e < 5000)
         (keypointsData (updateKeypointsData binary64 6000 6000 (Some [pose_kp0 410])
            (updateKeypointsData binary64 0 0 (Some [pose_kp0 400]) initial_state)) 0)
   \<and> kp_at (keypoints (pose_kp0 410)) 1 = None
   \<and> keypointsData (updateKeypointsData binary64 6000 6000 (Some [pose_kp0 410])
          (updateKeypointsData binary64 0 0 (Some [pose_kp0 400]) initial_state)) 1 = []"
  using C1_pruned_when_present [of binary64 0 "pose_kp0 410" 6000 6000 "[]"
          "updateKeypointsData binary64 0 0 (Some [pose_kp0 400]) initial_state"]
        C1_pruned_when_present [of binary64 1 "pose_kp0 410" 6000 6000 "[]"
          "updateKeypointsData binary64 0 0 (Some [pose_kp0 400]) initial_state"]
  by (simp add: rounding_binary64 kp_at_pose_kp0 updateKeypointsData_def updateGraph_history
      ingest_history [OF rounding_binary64] initial_state_def list_all_iff)

subsection \<open>C2: when the alert sounds\<close>

text \<open>
  C2, as stated: on a tick of \<^verbatim>\<open>updateGraph\<close> with \<open>alertEnabled\<close>, a non-empty
  pool of the last second whose mean exceeds the threshold, and at least 1000 ms since the
  last alert or no alert so far, \<^verbatim>\<open>beep(0.2, 440, 300)\<close> is called and
  \<open>lastBeepTime\<close> becomes \<open>currentTime\<close>.

  The code has no value for "no alert so far": \<open>lastBeepTime\<close> starts at 0 and the guard is
  \<^verbatim>\<open>currentTime - lastBeepTime > 1000\<close>. In the run below, in double arithmetic, the
  alert is switched on, keypoint 0 is recorded at height 400 at clock value 500, and
  \<^verbatim>\<open>updateGraph\<close> reads the clock at 600: the alert is enabled, the pool is
  \<open>[400]\<close>, its mean 400 is above the threshold 300, no beep has been made so far, and none
  is made.
\<close>

theorem C2_counterexample:
  "alertEnabled (ingest binary64 500 (Some [pose_kp0 400]) (handle binary64 initial_state ToggleClick))
   \<and> dataLast1Sec binary64 600
        (keypointsData
          (ingest binary64 500 (Some [pose_kp0 400]) (handle binary64 initial_state ToggleClick)))
      = [400]
   \<and> fmean binary64 [400] = 400
   \<and> threshold
        (ingest binary64 500 (Some [pose_kp0 400]) (handle binary64 initial_state ToggleClick))
      < 400
   \<and> audio (ingest binary64 500 (Some [pose_kp0 400]) (handle binary64 initial_state ToggleClick))
      = []
   \<and> audio (updateGraph binary64 600
        (ingest binary64 500 (Some [pose_kp0 400]) (handle binary64 initial_state ToggleClick)))
      = []"
proof -
  note r = rounding_binary64
  define s where "s = ingest binary64 500 (Some [pose_kp0 400]) (handle binary64 initial_state ToggleClick)"
  have en: "alertEnabled s" and th: "threshold s = 300" and au: "audio s = []"
    and lb: "lastBeepTime s = 0"
    by (simp_all add: s_def ingest_frame initial_state_def)
  have k: "keypointsData s i = (if i = 0 then [\<lparr>entry_time = 500, entry_y = 400\<rparr>] else [])" for i
    unfolding s_def by (rule kd_first_frame [OF r]) (simp add: initial_state_def)
  have d: "dataLast1Sec binary64 600 (keypointsData s) = [400]"
    by (subst pooled_one_history) (simp_all add: k rounding_numeral [OF r])
  have "\<not> alertFires binary64 600 s"
    by (simp add: alertFires_def lb fsub_def rounding_numeral [OF r])
  then have q: "audio (updateGraph binary64 600 s) = []"
    by (simp add: updateGraph_audio au)
  from en th au d q fmean_400(1) [OF r] show ?thesis
    unfolding s_def by simp
qed

text \<open>
  C2, amended: on a tick of \<^verbatim>\<open>updateGraph\<close>, if \<open>alertEnabled\<close> holds, the pool
  of the y values of all entries of the histories 0..4 whose age, the rounded difference
  \<open>currentTime - time\<close>, is below 1000 is non-empty, its mean as the code computes it (the
  sum from 0, each addition rounded, divided by the count and rounded) exceeds the
  threshold, and the rounded difference \<open>currentTime - lastBeepTime\<close> exceeds 1000 (with
  \<open>lastBeepTime\<close> 0 until the first alert), then \<^verbatim>\<open>beep(0.2, 440, 300)\<close> is called
  once and \<open>lastBeepTime\<close> becomes \<open>currentTime\<close>. If the alert is disabled, or the pool is
  empty, or the computed mean does not exceed the threshold, or the rounded difference
  \<open>currentTime - lastBeepTime\<close> is below 1000, or (for a monotone rounding that is exact on
  integers) the exact difference is below 1000, no beep is made and \<open>lastBeepTime\<close> stays.
  All of this holds for every rounding function. (The statement is silent about a tick
  whose difference to \<open>lastBeepTime\<close> is exactly 1000.)
\<close>

theorem C2_alert_rule:
  "(alertEnabled s \<and> dataLast1Sec rnd t (keypointsData s) \<noteq> [] \<and>
    threshold s < fmean rnd (dataLast1Sec rnd t (keypointsData s)) \<and>
    1000 < rnd (t - lastBeepTime s)
    \<longrightarrow> audio (updateGraph rnd t s) =
          audio s @ [\<lparr>beep_at = t, beep_vol = 0.2, beep_freq = 440, beep_duration = 300\<rparr>]
        \<and> lastBeepTime (updateGraph rnd t s) = t)
   \<and> (\<not> alertEnabled s \<or> dataLast1Sec rnd t (keypointsData s) = [] \<or>
      fmean rnd (dataLast1Sec rnd t (keypointsData s)) \<le> threshold s \<or>
      rnd (t - lastBeepTime s) < 1000
      \<longrightarrow> audio (updateGraph rnd t s) = audio s
        \<and> lastBeepTime (updateGraph rnd t s) = lastBeepTime s)
   \<and> (rounding rnd \<and> t - lastBeepTime s < 1000
      \<longrightarrow> audio (updateGraph rnd t s) = audio s
        \<and> lastBeepTime (updateGraph rnd t s) = lastBeepTime s)
   \<and> dataLast1Sec rnd t (keypointsData s) =
       concat (map (\<lambda>point. map entry_y
                 (filter (\<lambda>e. rnd (t - entry_time e) < 1000) (keypointsData s point)))
               [0, 1, 2, 3, 4])"
proof -
  have pool: "dataLast1Sec rnd t (keypointsData s) =
       concat (map (\<lambda>point. map entry_y
                 (filter (\<lambda>e. rnd (t - entry_time e) < 1000) (keypointsData s point)))
               [0, 1, 2, 3, 4])"
    by (simp add: dataLast1Sec_concat tracked_def)
  have yes: "alertEnabled s \<and> dataLast1Sec rnd t (keypointsData s) \<noteq> [] \<and>
    threshold s < fmean rnd (dataLast1Sec rnd t (keypointsData s)) \<and>
    1000 < rnd (t - lastBeepTime s)
    \<longrightarrow> audio (updateGraph rnd t s) =
          audio s @ [\<lparr>beep_at = t, beep_vol = 0.2, beep_freq = 440, beep_duration = 300\<rparr>]
        \<and> lastBeepTime (updateGraph rnd t s) = t"
  proof
    assume "alertEnabled s \<and> dataLast1Sec rnd t (keypointsData s) \<noteq> [] \<and>
      threshold s < fmean rnd (dataLast1Sec rnd t (keypointsData s)) \<and>
      1000 < rnd (t - lastBeepTime s)"
    then have "alertFires rnd t s" by (simp add: alertFires_def fsub_def)
    then show "audio (updateGraph rnd t s) =
          audio s @ [\<lparr>beep_at = t, beep_vol = 0.2, beep_freq = 440, beep_duration = 300\<rparr>]
        \<and> lastBeepTime (updateGraph rnd t s) = t"
      by (simp add: updateGraph_audio updateGraph_lastBeepTime)
  qed
  have no: "\<not> alertEnabled s \<or> dataLast1Sec rnd t (keypointsData s) = [] \<or>
      fmean rnd (dataLast1Sec rnd t (keypointsData s)) \<le> threshold s \<or>
      rnd (t - lastBeepTime s) < 1000
      \<longrightarrow> audio (updateGraph rnd t s) = audio s
        \<and> lastBeepTime (updateGraph rnd t s) = lastBeepTime s"
  proof
    assume "\<not> alertEnabled s \<or> dataLast1Sec rnd t (keypointsData s) = [] \<or>
      fmean rnd (dataLast1Sec rnd t (keypointsData s)) \<le> threshold s \<or>
      rnd (t - lastBeepTime s) < 1000"
    then have "\<not> alertFires rnd t s" by (auto simp add: alertFires_def fsub_def)
    then show "audio (updateGraph rnd t s) = audio s
        \<and> lastBeepTime (updateGraph rnd t s) = lastBeepTime s"
      by (simp add: updateGraph_audio updateGraph_lastBeepTime)
  qed
  have early: "rounding rnd \<and> t - lastBeepTime s < 1000
      \<longrightarrow> audio (updateGraph rnd t s) = audio s
        \<and> lastBeepTime (updateGraph rnd t s) = lastBeepTime s"
  proof
    assume h: "rounding rnd \<and> t - lastBeepTime s < 1000"
    have "\<not> 1000 < rnd (t - lastBeepTime s)"
    proof
      assume "1000 < rnd (t - lastBeepTime s)"
      then have "1000 < t - lastBeepTime s"
        by (rule rounding_greater_numeral [OF conjunct1 [OF h], rotated]) simp
      with h show False by simp
    qed
    then have "\<not> alertFires rnd t s" by (simp add: alertFires_def fsub_def)
    then show "audio (updateGraph rnd t s) = audio s
        \<and> lastBeepTime (updateGraph rnd t s) = lastBeepTime s"
      by (simp add: updateGraph_audio updateGraph_lastBeepTime)
  qed
  from yes no early pool show ?thesis by (intro conjI)
qed

text \<open>
  The amended statement at runs from the initial state in double arithmetic with one frame
  at clock value 2000: with the alert switched on the beep is made; with the alert off it is
  not; and \<^verbatim>\<open>updateGraph\<close> at clock value 600 after a frame at 500, less than 1000 ms
  after \<open>lastBeepTime = 0\<close>, makes none. Last, a frame at clock value 2000 with the five
  keypoints of \<open>pose_five\<close>, alert on: the pooled values have the exact mean 300, equal to
  the threshold, their computed mean is the double above 300, and the beep is made.
\<close>

theorem C2_alert_rule_witness:
  "rounding binary64
   \<and> alertEnabled (ingest binary64 2000 (Some [pose_kp0 400]) (handle binary64 initial_state ToggleClick))
   \<and> dataLast1Sec binary64 2000
        (keypointsData
          (ingest binary64 2000 (Some [pose_kp0 400]) (handle binary64 initial_state ToggleClick)))
      \<noteq> []
   \<and> audio (updateGraph binary64 2000
        (ingest binary64 2000 (Some [pose_kp0 400]) (handle binary64 initial_state ToggleClick)))
      = [\<lparr>beep_at = 2000, beep_vol = 0.2, beep_freq = 440, beep_duration = 300\<rparr>]
   \<and> lastBeepTime (updateGraph binary64 2000
        (ingest binary64 2000 (Some [pose_kp0 400]) (handle binary64 initial_state ToggleClick)))
      = 2000
   \<and> \<not> alertEnabled (ingest binary64 2000 (Some [pose_kp0 400]) initial_state)
   \<and> audio (updateGraph binary64 2000 (ingest binary64 2000 (Some [pose_kp0 400]) initial_state))
      = []
   \<and> lastBeepTime
        (updateGraph binary64 2000 (ingest binary64 2000 (Some [pose_kp0 400]) initial_state))
      = 0
   \<and> audio (updateGraph binary64 600
        (ingest binary64 500 (Some [pose_kp0 400]) (handle binary64 initial_state ToggleClick)))
      = []
   \<and> sum_list (dataLast1Sec binary64 2000
        (keypointsData
          (ingest binary64 2000 (Some [pose_five]) (handle binary64 initial_state ToggleClick))))
      / real (length (dataLast1Sec binary64 2000
        (keypointsData
          (ingest binary64 2000 (Some [pose_five]) (handle binary64 initial_state ToggleClick)))))
      = 300
   \<and> fmean binary64 (dataLast1Sec binary64 2000
        (keypointsData
          (ingest binary64 2000 (Some [pose_five]) (handle binary64 initial_state ToggleClick))))
      = 5277655813324801 / 17592186044416
   \<and> audio (updateGraph binary64 2000
        (ingest binary64 2000 (Some [pose_five]) (handle binary64 initial_state ToggleClick)))
      = [\<lparr>beep_at = 2000, beep_vol = 0.2, beep_freq = 440, beep_duration = 300\<rparr>]"
proof -
  have one: "rounding binary64
     \<and> alertEnabled (ingest binary64 2000 (Some [pose_kp0 400]) (handle binary64 initial_state ToggleClick))
     \<and> dataLast1Sec binary64 2000
          (keypointsData
            (ingest binary64 2000 (Some [pose_kp0 400]) (handle binary64 initial_state ToggleClick)))
        \<noteq> []
     \<and> audio (updateGraph binary64 2000
          (ingest binary64 2000 (Some [pose_kp0 400]) (handle binary64 initial_state ToggleClick)))
        = [\<lparr>beep_at = 2000, beep_vol = 0.2, beep_freq = 440, beep_duration = 300\<rparr>]
     \<and> lastBeepTime (updateGraph binary64 2000
          (ingest binary64 2000 (Some [pose_kp0 400]) (handle binary64 initial_state ToggleClick)))
        = 2000
     \<and> \<not> alertEnabled (ingest binary64 2000 (Some [pose_kp0 400]) initial_state)
     \<and> audio (updateGraph binary64 2000 (ingest binary64 2000 (Some [pose_kp0 400]) initial_state))
        = []
     \<and> lastBeepTime
          (updateGraph binary64 2000 (ingest binary64 2000 (Some [pose_kp0 400]) initial_state))
        = 0
     \<and> audio (updateGraph binary64 600
          (ingest binary64 500 (Some [pose_kp0 400]) (handle binary64 initial_state ToggleClick)))
        = []"
  proof -
    note r = rounding_binary64
    define s where "s = ingest binary64 2000 (Some [pose_kp0 400]) (handle binary64 initial_state ToggleClick)"
    define q where "q = ingest binary64 2000 (Some [pose_kp0 400]) initial_state"
    define e where "e = ingest binary64 500 (Some [pose_kp0 400]) (handle binary64 initial_state ToggleClick)"
    have s: "alertEnabled s" "threshold s = 300" "audio s = []" "lastBeepTime s = 0"
      by (simp_all add: s_def ingest_frame initial_state_def)
    have k: "keypointsData s i = (if i = 0 then [\<lparr>entry_time = 2000, entry_y = 400\<rparr>] else [])" for i
      unfolding s_def by (rule kd_first_frame [OF r]) (simp add: initial_state_def)
    have d: "dataLast1Sec binary64 2000 (keypointsData s) = [400]"
      by (subst pooled_one_history) (simp_all add: k rounding_zero [OF r])
    have q: "\<not> alertEnabled q" "audio q = []" "lastBeepTime q = 0"
      by (simp_all add: q_def ingest_frame initial_state_def)
    have e: "audio e = []" "lastBeepTime e = 0"
      by (simp_all add: e_def ingest_frame initial_state_def)
    have c1: "audio (updateGraph binary64 2000 s)
        = [\<lparr>beep_at = 2000, beep_vol = 0.2, beep_freq = 440, beep_duration = 300\<rparr>]
      \<and> lastBeepTime (updateGraph binary64 2000 s) = 2000"
      using C2_alert_rule [of s binary64 2000, THEN conjunct1]
      by (simp add: s d fmean_400 [OF r] rounding_numeral [OF r])
    have c2: "audio (updateGraph binary64 2000 q) = []
      \<and> lastBeepTime (updateGraph binary64 2000 q) = 0"
      using C2_alert_rule [of q binary64 2000, THEN conjunct2, THEN conjunct1]
      by (simp add: q)
    have c3: "audio (updateGraph binary64 600 e) = []"
      using C2_alert_rule [of e binary64 600, THEN conjunct2, THEN conjunct2, THEN conjunct1]
      by (simp add: e r)
    from r s(1) d c1 c2 c3 q(1) show ?thesis
      unfolding s_def q_def e_def by simp
  qed
  have two: "sum_list (dataLast1Sec binary64 2000
          (keypointsData
            (ingest binary64 2000 (Some [pose_five]) (handle binary64 initial_state ToggleClick))))
        / real (length (dataLast1Sec binary64 2000
          (keypointsData
            (ingest binary64 2000 (Some [pose_five]) (handle binary64 initial_state ToggleClick)))))
        = 300
     \<and> fmean binary64 (dataLast1Sec binary64 2000
          (keypointsData
            (ingest binary64 2000 (Some [pose_five]) (handle binary64 initial_state ToggleClick))))
        = 5277655813324801 / 17592186044416
     \<and> audio (updateGraph binary64 2000
          (ingest binary64 2000 (Some [pose_five]) (handle binary64 initial_state ToggleClick)))
        = [\<lparr>beep_at = 2000, beep_vol = 0.2, beep_freq = 440, beep_duration = 300\<rparr>]"
  proof -
    note r = rounding_binary64
    define p where "p = ingest binary64 2000 (Some [pose_five]) (handle binary64 initial_state ToggleClick)"
    note f = five_run [folded p_def]
    have m: "sum_list (dataLast1Sec binary64 2000 (keypointsData p))
        / real (length (dataLast1Sec binary64 2000 (keypointsData p))) = 300"
      unfolding f(1) by simp
    have fm: "fmean binary64 (dataLast1Sec binary64 2000 (keypointsData p))
        = 5277655813324801 / 17592186044416"
      unfolding f(1) by (rule fmean_five)
    have gt: "threshold p < fmean binary64 (dataLast1Sec binary64 2000 (keypointsData p))"
      unfolding fm f(3) by simp
    have ne: "dataLast1Sec binary64 2000 (keypointsData p) \<noteq> []"
      unfolding f(1) by simp
    have gap: "1000 < binary64 (2000 - lastBeepTime p)"
      unfolding f(4) by (simp add: rounding_numeral [OF r])
    have "audio (updateGraph binary64 2000 p) = audio p @
        [\<lparr>beep_at = 2000, beep_vol = 0.2, beep_freq = 440, beep_duration = 300\<rparr>]"
      using C2_alert_rule [of p binary64 2000, THEN conjunct1] f(2) ne gt gap by blast
    then have "audio (updateGraph binary64 2000 p)
        = [\<lparr>beep_at = 2000, beep_vol = 0.2, beep_freq = 440, beep_duration = 300\<rparr>]"
      by (simp add: f(5))
    with m fm show ?thesis
      unfolding p_def by simp
  qed
  from one two show ?thesis
    by (intro conjI) (elim conjE, assumption)+
qed

subsection \<open>C3: the two-frame scenario\<close>

text \<open>
  C3, as stated: with only keypoint 0 recorded, at height 400, at clock values 0 and 500,
  threshold 300 and the alert switched on, the alert sounds exactly once, at the first
  \<^verbatim>\<open>updateGraph\<close>.

  On the code, run in double arithmetic, it does not sound at all: \<open>lastBeepTime\<close> starts
  at 0, and neither 0 nor 500 is more than 1000 ms after it.
\<close>

theorem C3_counterexample:
  "audio (run binary64 initial_state (scenario 0)) = []
   \<and> length (audio (run binary64 initial_state (scenario 0))) \<noteq> 1"
  using scenario_trace(5) [OF rounding_binary64, of 0]
  by (simp add: rounding_zero [OF rounding_binary64] rounding_numeral [OF rounding_binary64])

text \<open>
  C3, amended: for the same two frames at clock values \<open>T\<close> and \<open>T + 500\<close>, run from the
  initial state with the alert switched on (threshold 300), under a monotone rounding that
  is exact on integers and leaves \<open>T\<close> and \<open>T + 500\<close> as they are (both are doubles), the
  pooled values are \<open>[400]\<close> at the first and \<open>[400, 400]\<close> at the second
  \<^verbatim>\<open>updateGraph\<close>, with computed mean 400, above 300, and the alert never sounds
  twice: it sounds once, at the first \<^verbatim>\<open>updateGraph\<close>, when \<open>T > 1000\<close>; once, at the
  second, when \<open>500 < T \<le> 1000\<close>; and not at all when \<open>T \<le> 500\<close>, so not for \<open>T = 0\<close>.
\<close>

theorem C3_scenario_beeps:
  "rounding rnd \<Longrightarrow> rnd T = T \<Longrightarrow> rnd (T + 500) = T + 500 \<Longrightarrow>
   map beep_at (audio (run rnd initial_state (scenario T))) =
     (if 1000 < T then [T] else if 500 < T then [T + 500] else [])
   \<and> dataLast1Sec rnd T (keypointsData (run rnd initial_state (take 2 (scenario T)))) = [400]
   \<and> dataLast1Sec rnd (T + 500) (keypointsData (run rnd initial_state (scenario T)))
      = [400, 400]
   \<and> fmean rnd [400] = 400 \<and> fmean rnd [400, 400] = 400
   \<and> threshold (run rnd initial_state (take 2 (scenario T))) = 300
   \<and> threshold (run rnd initial_state (scenario T)) = 300"
  by (simp only: scenario_trace fmean_400 simp_thms)

text \<open>
  The three cases of the amended statement in double arithmetic, at \<open>T = 2000\<close>, \<open>T = 0\<close>
  and \<open>T = 800\<close>.
\<close>

theorem C3_scenario_beeps_witness:
  "rounding binary64 \<and> binary64 2000 = 2000 \<and> binary64 (2000 + 500) = 2000 + 500
   \<and> map beep_at (audio (run binary64 initial_state (scenario 2000))) = [2000]
   \<and> binary64 0 = 0 \<and> binary64 (0 + 500) = 0 + 500
   \<and> map beep_at (audio (run binary64 initial_state (scenario 0))) = []
   \<and> binary64 800 = 800 \<and> binary64 (800 + 500) = 800 + 500
   \<and> map beep_at (audio (run binary64 initial_state (scenario 800))) = [1300]"
proof -
  note r = rounding_binary64
  note n = rounding_numeral [OF r] rounding_zero [OF r]
  have a: "binary64 2000 = 2000" "binary64 (2000 + 500) = 2000 + 500"
    and b: "binary64 0 = 0" "binary64 (0 + 500) = 0 + 500"
    and c: "binary64 800 = 800" "binary64 (800 + 500) = 800 + 500"
    by (simp_all add: n)
  from C3_scenario_beeps [OF r a] C3_scenario_beeps [OF r b] C3_scenario_beeps [OF r c] r a b c
  show ?thesis by simp
qed

subsection \<open>C4: the chart series\<close>




subsection \<open>C5: two beeps are more than 1000 ms apart\<close>

text \<open>
  C5: for every start state and every sequence of frames, slider inputs and toggle clicks
  (any poses, any clock values), of any two beeps made during the run the later one is more
  than 1000 ms after the earlier one, measured exactly by the clock values read by the
  \<^verbatim>\<open>updateGraph\<close> calls that made them. So no two beeps are less than 1000 ms
  apart. This holds for every monotone rounding that is exact on integers, so for doubles.
\<close>

theorem C5_beeps_spaced:
  "rounding rnd \<Longrightarrow> i < j \<Longrightarrow>
   j < length (beepsSince (length (audio s)) (run rnd s evs)) \<Longrightarrow>
     1000 < beep_at (beepsSince (length (audio s)) (run rnd s evs) ! j)
            - beep_at (beepsSince (length (audio s)) (run rnd s evs) ! i)"
proof -
  assume r: "rounding rnd" and ij: "i < j"
    and j: "j < length (beepsSince (length (audio s)) (run rnd s evs))"
  from run_log [OF r, of s evs] obtain new where a: "audio (run rnd s evs) = audio s @ new"
    and sp: "sorted_wrt (\<lambda>a b. 1000 < beep_at b - beep_at a) new"
    by blast
  have n: "beepsSince (length (audio s)) (run rnd s evs) = new"
    by (simp add: beepsSince_def a)
  from sp ij j show ?thesis
    unfolding n by (simp add: sorted_wrt_iff_nth_less)
qed

text \<open>
  C5 at a run with two beeps in double arithmetic: the scenario at clock values 2000 and
  2500, then a third frame at 3200; the beeps are at 2000 and 3200.
\<close>

theorem C5_beeps_spaced_witness:
  "rounding binary64 \<and> (0::nat) < 1
   \<and> 1 < length (beepsSince (length (audio initial_state))
            (run binary64 initial_state
              (scenario 2000 @ [Frame 3200 3200 (Some [pose_kp0 400])])))
   \<and> 1000 < beep_at (beepsSince (length (audio initial_state))
            (run binary64 initial_state
              (scenario 2000 @ [Frame 3200 3200 (Some [pose_kp0 400])])) ! 1)
        - beep_at (beepsSince (length (audio initial_state))
            (run binary64 initial_state
              (scenario 2000 @ [Frame 3200 3200 (Some [pose_kp0 400])])) ! 0)"
proof -
  note r = rounding_binary64
  let ?r = "run binary64 initial_state (scenario 2000 @ [Frame 3200 3200 (Some [pose_kp0 400])])"
  have z: "length (audio initial_state) = 0"
    by (simp add: initial_state_def)
  have "length (map beep_at (audio ?r)) = 2"
    by (simp only: two_beeps [OF r]) simp
  then have l: "length (beepsSince (length (audio initial_state)) ?r) = 2"
    by (simp add: beepsSince_def z)
  then have j: "1 < length (beepsSince (length (audio initial_state)) ?r)"
    by simp
  from C5_beeps_spaced [OF r, of 0 1 initial_state
      "scenario 2000 @ [Frame 3200 3200 (Some [pose_kp0 400])]", OF _ j] j r
  show ?thesis by simp
qed

subsection \<open>C6: no alert while the alert is switched off\<close>

text \<open>
  C6: when \<open>alertEnabled\<close> is false, \<^verbatim>\<open>updateGraph\<close> makes no beep and leaves
  \<open>lastBeepTime\<close> alone, whatever the histories and the threshold are; the same holds for
  a whole frame (\<^verbatim>\<open>updateKeypointsData\<close>). This holds for every rounding function.
\<close>

theorem C6_disabled_silent:
  "\<not> alertEnabled s \<Longrightarrow>
     audio (updateGraph rnd t s) = audio s
     \<and> lastBeepTime (updateGraph rnd t s) = lastBeepTime s
     \<and> audio (updateKeypointsData rnd c t poses s) = audio s
     \<and> lastBeepTime (updateKeypointsData rnd c t poses s) = lastBeepTime s"
proof -
  assume off: "\<not> alertEnabled s"
  then have "\<not> alertFires rnd t s"
    by (simp add: alertFires_def)
  moreover from off have "\<not> alertFires rnd t (ingest rnd c poses s)"
    by (simp add: alertFires_def ingest_frame)
  ultimately show ?thesis
    by (simp add: updateKeypointsData_def updateGraph_audio updateGraph_lastBeepTime
        ingest_frame)
qed

text \<open>
  C6 in double arithmetic at a state whose pooled mean 400 exceeds the threshold 300, more
  than 1000 ms after \<open>lastBeepTime\<close>, with the alert off: no beep.
\<close>

theorem C6_disabled_silent_witness:
  "\<not> alertEnabled (ingest binary64 2000 (Some [pose_kp0 400]) initial_state)
   \<and> dataLast1Sec binary64 2000
        (keypointsData (ingest binary64 2000 (Some [pose_kp0 400]) initial_state)) = [400]
   \<and> fmean binary64 [400] = 400
   \<and> threshold (ingest binary64 2000 (Some [pose_kp0 400]) initial_state) = 300
   \<and> audio (updateGraph binary64 2000 (ingest binary64 2000 (Some [pose_kp0 400]) initial_state))
      = []
   \<and> lastBeepTime
        (updateGraph binary64 2000 (ingest binary64 2000 (Some [pose_kp0 400]) initial_state))
      = 0"
proof -
  note r = rounding_binary64
  define q where "q = ingest binary64 2000 (Some [pose_kp0 400]) initial_state"
  have q: "\<not> alertEnabled q" "audio q = []" "lastBeepTime q = 0" "threshold q = 300"
    by (simp_all add: q_def ingest_frame initial_state_def)
  have k: "keypointsData q i = (if i = 0 then [\<lparr>entry_time = 2000, entry_y = 400\<rparr>] else [])" for i
    unfolding q_def by (rule kd_first_frame [OF r]) (simp add: initial_state_def)
  have d: "dataLast1Sec binary64 2000 (keypointsData q) = [400]"
    by (subst pooled_one_history) (simp_all add: k rounding_zero [OF r])
  from C6_disabled_silent [of q binary64 2000 2000 None] q d fmean_400(1) [OF r]
  show ?thesis
    unfolding q_def by simp
qed

subsection \<open>C7: empty history, empty pool\<close>

text \<open>
  C7: when the five histories are empty, \<^verbatim>\<open>updateGraph\<close> sets the chart series
  to \<open>[0, 0, 0, 0, 0]\<close> and makes no beep; whenever the pool of the last second is empty,
  \<^verbatim>\<open>updateGraph\<close> changes nothing but the chart series (no beep, \<open>lastBeepTime\<close>
  kept). On the initial state the result is the initial state with the series of zeros.
  The function has no failing branch: both divisions are behind a length test. This holds
  for every rounding function.
\<close>

theorem C7_empty_no_alert:
  "((\<forall>i<5. keypointsData s i = []) \<longrightarrow>
      chartData (updateGraph rnd t s) = [0, 0, 0, 0, 0]
      \<and> audio (updateGraph rnd t s) = audio s
      \<and> lastBeepTime (updateGraph rnd t s) = lastBeepTime s)
   \<and> (dataLast1Sec rnd t (keypointsData s) = [] \<longrightarrow>
        updateGraph rnd t s = s\<lparr>chartData := graphData rnd t (keypointsData s)\<rparr>)
   \<and> updateGraph rnd t initial_state = initial_state\<lparr>chartData := [0, 0, 0, 0, 0]\<rparr>"
proof (intro conjI impI)
  assume e: "\<forall>i<5. keypointsData s i = []"
  then have "dataLast1Sec rnd t (keypointsData s) = []"
    by (simp add: dataLast1Sec_empty)
  then have q: "\<not> alertFires rnd t s"
    by (simp add: alertFires_def)
  from e show "chartData (updateGraph rnd t s) = [0, 0, 0, 0, 0]"
    by (simp add: updateGraph_chartData graphData_empty)
  from q show "audio (updateGraph rnd t s) = audio s"
    by (simp add: updateGraph_audio)
  from q show "lastBeepTime (updateGraph rnd t s) = lastBeepTime s"
    by (simp add: updateGraph_lastBeepTime)
next
  assume "dataLast1Sec rnd t (keypointsData s) = []"
  then have "\<not> alertFires rnd t s"
    by (simp add: alertFires_def)
  then show "updateGraph rnd t s = s\<lparr>chartData := graphData rnd t (keypointsData s)\<rparr>"
    by (rule updateGraph_quiet)
next
  have k: "keypointsData initial_state = (\<lambda>_. [])"
    by (simp add: initial_state_def)
  have "\<not> alertFires rnd t initial_state"
    by (simp add: alertFires_def k dataLast1Sec_empty)
  then show "updateGraph rnd t initial_state = initial_state\<lparr>chartData := [0, 0, 0, 0, 0]\<rparr>"
    by (simp add: updateGraph_quiet k graphData_empty)
qed

text \<open>
  C7 in double arithmetic at the initial state with the alert switched on, and at a state
  with a 3000 ms old entry (history not empty, pool empty).
\<close>

theorem C7_empty_no_alert_witness:
  "chartData (updateGraph binary64 7 (handle binary64 initial_state ToggleClick)) = [0, 0, 0, 0, 0]
   \<and> audio (updateGraph binary64 7 (handle binary64 initial_state ToggleClick)) = []
   \<and> lastBeepTime (updateGraph binary64 7 (handle binary64 initial_state ToggleClick)) = 0
   \<and> dataLast1Sec binary64 3000
        (keypointsData
          (ingest binary64 0 (Some [pose_kp0 400]) (handle binary64 initial_state ToggleClick)))
      = []
   \<and> chartData (updateGraph binary64 3000
        (ingest binary64 0 (Some [pose_kp0 400]) (handle binary64 initial_state ToggleClick)))
      = [400, 0, 0, 0, 0]
   \<and> audio (updateGraph binary64 3000
        (ingest binary64 0 (Some [pose_kp0 400]) (handle binary64 initial_state ToggleClick)))
      = []"
proof -
  note r = rounding_binary64
  note n = rounding_numeral [OF r] rounding_zero [OF r]
  define s where "s = handle binary64 initial_state ToggleClick"
  define q where "q = ingest binary64 0 (Some [pose_kp0 400]) s"
  have s: "keypointsData s = (\<lambda>_. [])" "audio s = []" "lastBeepTime s = 0"
    by (simp_all add: s_def initial_state_def)
  have k: "keypointsData q i = (if i = 0 then [\<lparr>entry_time = 0, entry_y = 400\<rparr>] else [])" for i
    unfolding q_def by (rule kd_first_frame [OF r]) (rule s)
  have d: "dataLast1Sec binary64 3000 (keypointsData q) = []"
    by (subst pooled_one_history) (simp_all add: k n)
  have g: "graphData binary64 3000 (keypointsData q) = [400, 0, 0, 0, 0]"
    by (simp add: graphData_def tracked_def avgY_fmean k n fmean_400 [OF r])
  have a: "audio q = []"
    by (simp add: q_def ingest_frame s)
  from C7_empty_no_alert [where s = s and rnd = binary64 and t = 7, THEN conjunct1]
    C7_empty_no_alert [where s = q and rnd = binary64 and t = 3000, THEN conjunct2,
      THEN conjunct1] s d g a
  show ?thesis
    unfolding q_def s_def by simp
qed

subsection \<open>C8: what a frame reads and what it appends\<close>

text \<open>
  C8: two pose arguments with the same \<open>readPart\<close> (both without a pose, or first poses
  that agree, at each index 0..4, on whether a keypoint is there and on its
  \<^verbatim>\<open>y\<close>) lead \<^verbatim>\<open>updateKeypointsData\<close> to the same state: keypoints at
  other indices, their \<^verbatim>\<open>x\<close> and \<^verbatim>\<open>score\<close>, and all poses after the
  first have no effect on the histories, the chart series or the beeps. For a tracked index
  with a keypoint the new history is the old one filtered by the window test of the code
  (age, the rounded difference \<open>currentTime - time\<close>, below 5000), followed by the one entry
  \<^verbatim>\<open>{time: currentTime, y: keypoint.y}\<close> (for a monotone rounding that is exact on
  integers, so that the new entry has age 0); for an index without a keypoint, and for
  every index from 5 on, the history is unchanged.
\<close>

theorem C8_reads_first_five:
  "(readPart poses = readPart poses' \<longrightarrow>
      updateKeypointsData rnd c g poses s = updateKeypointsData rnd c g poses' s)
   \<and> (rounding rnd \<and> i < 5 \<and> kp_at (keypoints p) i = Some k \<longrightarrow>
        keypointsData (updateKeypointsData rnd c g (Some (p # ps)) s) i =
          filter (\<lambda>d. rnd (c - entry_time d) < 5000) (keypointsData s i)
          @ [\<lparr>entry_time = c, entry_y = kp_y k\<rparr>])
   \<and> (kp_at (keypoints p) i = None \<longrightarrow>
        keypointsData (updateKeypointsData rnd c g (Some (p # ps)) s) i = keypointsData s i)
   \<and> (5 \<le> i \<longrightarrow> keypointsData (updateKeypointsData rnd c g poses s) i = keypointsData s i)"
proof (intro conjI impI)
  assume "readPart poses = readPart poses'"
  then have "ingest rnd c poses s = ingest rnd c poses' s"
    by (simp add: ingest_by_readPart cong: if_cong option.case_cong)
  then show "updateKeypointsData rnd c g poses s = updateKeypointsData rnd c g poses' s"
    by (simp add: updateKeypointsData_def)
next
  assume h: "rounding rnd \<and> i < 5 \<and> kp_at (keypoints p) i = Some k"
  then show "keypointsData (updateKeypointsData rnd c g (Some (p # ps)) s) i =
          filter (\<lambda>d. rnd (c - entry_time d) < 5000) (keypointsData s i)
          @ [\<lparr>entry_time = c, entry_y = kp_y k\<rparr>]"
    by (simp add: updateKeypointsData_def updateGraph_history
        ingest_history [OF conjunct1 [OF h]])
next
  assume "kp_at (keypoints p) i = None"
  then show "keypointsData (updateKeypointsData rnd c g (Some (p # ps)) s) i = keypointsData s i"
    by (simp add: updateKeypointsData_def updateGraph_history ingest_history_raw)
next
  assume "5 \<le> i"
  then show "keypointsData (updateKeypointsData rnd c g poses s) i = keypointsData s i"
    by (simp add: updateKeypointsData_def updateGraph_history ingest_history_raw
        split: option.splits list.splits)
qed

text \<open>
  C8 in double arithmetic at two pose lists that differ in \<^verbatim>\<open>x\<close>,
  \<^verbatim>\<open>score\<close>, a keypoint at index 5 and a second pose: same resulting state; index 0
  gets its one entry, indices 1 and 5 get none.
\<close>

theorem C8_reads_first_five_witness:
  "rounding binary64
   \<and> readPart (Some [\<lparr>keypoints = [Some \<lparr>kp_x = 1, kp_y = 400, kp_score = 0.9\<rparr>, None]\<rparr>])
     = readPart (Some [\<lparr>keypoints = [Some \<lparr>kp_x = 7, kp_y = 400, kp_score = 0.1\<rparr>, None, None,
                        None, None, Some \<lparr>kp_x = 0, kp_y = 99, kp_score = 1\<rparr>]\<rparr>, pose_kp0 5])
   \<and> updateKeypointsData binary64 2000 2000
        (Some [\<lparr>keypoints = [Some \<lparr>kp_x = 1, kp_y = 400, kp_score = 0.9\<rparr>, None]\<rparr>])
        (handle binary64 initial_state ToggleClick)
     = updateKeypointsData binary64 2000 2000
        (Some [\<lparr>keypoints = [Some \<lparr>kp_x = 7, kp_y = 400, kp_score = 0.1\<rparr>, None, None,
                 None, None, Some \<lparr>kp_x = 0, kp_y = 99, kp_score = 1\<rparr>]\<rparr>, pose_kp0 5])
        (handle binary64 initial_state ToggleClick)
   \<and> keypointsData (updateKeypointsData binary64 2000 2000
        (Some [\<lparr>keypoints = [Some \<lparr>kp_x = 1, kp_y = 400, kp_score = 0.9\<rparr>, None]\<rparr>])
        (handle binary64 initial_state ToggleClick)) 0 = [\<lparr>entry_time = 2000, entry_y = 400\<rparr>]
   \<and> keypointsData (updateKeypointsData binary64 2000 2000
        (Some [\<lparr>keypoints = [Some \<lparr>kp_x = 1, kp_y = 400, kp_score = 0.9\<rparr>, None]\<rparr>])
        (handle binary64 initial_state ToggleClick)) 1 = []
   \<and> keypointsData (updateKeypointsData binary64 2000 2000
        (Some [\<lparr>keypoints = [Some \<lparr>kp_x = 1, kp_y = 400, kp_score = 0.9\<rparr>, None]\<rparr>])
        (handle binary64 initial_state ToggleClick)) 5 = []"
proof -
  note r = rounding_binary64
  let ?a = "\<lparr>keypoints = [Some \<lparr>kp_x = 1, kp_y = 400, kp_score = 0.9\<rparr>, None]\<rparr>"
  let ?A = "Some [?a]"
  let ?B = "Some [\<lparr>keypoints = [Some \<lparr>kp_x = 7, kp_y = 400, kp_score = 0.1\<rparr>, None, None,
                        None, None, Some \<lparr>kp_x = 0, kp_y = 99, kp_score = 1\<rparr>]\<rparr>, pose_kp0 5]"
  define s where "s = handle binary64 initial_state ToggleClick"
  have rp: "readPart ?A = readPart ?B"
    by (simp add: readPart_def tracked_def kp_at_def)
  have k0: "kp_at (keypoints ?a) 0 = Some \<lparr>kp_x = 1, kp_y = 400, kp_score = 0.9\<rparr>"
    and k1: "kp_at (keypoints ?a) 1 = None"
    by (simp_all add: kp_at_def)
  have e: "keypointsData s = (\<lambda>_. [])"
    by (simp add: s_def initial_state_def)
  have five: "rounding binary64 \<and> (0::nat) < 5
      \<and> kp_at (keypoints ?a) 0 = Some \<lparr>kp_x = 1, kp_y = 400, kp_score = 0.9\<rparr>"
    using k0 r by simp
  note c = C8_reads_first_five [where rnd = binary64 and c = 2000 and g = 2000 and s = s]
  note same = c [where poses = ?A and poses' = ?B, THEN conjunct1, THEN mp, OF rp]
  note h0 = c [where i = 0 and p = ?a and ps = "[]", THEN conjunct2, THEN conjunct1, THEN mp,
      OF five]
  note h1 = c [where i = 1 and p = ?a and ps = "[]", THEN conjunct2, THEN conjunct2,
      THEN conjunct1, THEN mp, OF k1]
  note h5 = c [where i = 5 and poses = ?A, THEN conjunct2, THEN conjunct2, THEN conjunct2,
      THEN mp]
  have "keypointsData (updateKeypointsData binary64 2000 2000 ?A s) 0
      = [\<lparr>entry_time = 2000, entry_y = 400\<rparr>]"
    unfolding h0 by (simp add: e)
  moreover have "keypointsData (updateKeypointsData binary64 2000 2000 ?A s) 1 = []"
    unfolding h1 by (simp add: e)
  moreover have "keypointsData (updateKeypointsData binary64 2000 2000 ?A s) 5 = []"
    by (subst h5) (simp_all add: e)
  ultimately show ?thesis
    using r rp same unfolding s_def by blast
qed

subsection \<open>C9: what \<^verbatim>\<open>updateGraph\<close> writes\<close>

text \<open>
  C9: \<^verbatim>\<open>updateGraph\<close> leaves the histories, the threshold and \<open>alertEnabled\<close>
  as they are. Its result is the old state with a new chart series and nothing else changed,
  or the old state with a new chart series, \<open>lastBeepTime\<close> set to \<open>currentTime\<close> and one
  beep made. \<^verbatim>\<open>drawGraph\<close> writes the chart series only. This holds for every
  rounding function.
\<close>

theorem C9_updateGraph_frame:
  "keypointsData (updateGraph rnd t s) = keypointsData s
   \<and> threshold (updateGraph rnd t s) = threshold s
   \<and> alertEnabled (updateGraph rnd t s) = alertEnabled s
   \<and> (updateGraph rnd t s = s\<lparr>chartData := graphData rnd t (keypointsData s)\<rparr>
      \<or> updateGraph rnd t s =
          s\<lparr>chartData := graphData rnd t (keypointsData s), lastBeepTime := t,
            audio := audio s @
              [\<lparr>beep_at = t, beep_vol = 0.2, beep_freq = 440, beep_duration = 300\<rparr>]\<rparr>)
   \<and> drawGraph dat s = s\<lparr>chartData := dat\<rparr>"
proof (cases "alertFires rnd t s")
  case True
  then show ?thesis
    by (simp add: updateGraph_fires drawGraph_def)
next
  case False
  then show ?thesis
    by (simp add: updateGraph_quiet drawGraph_def)
qed

subsection \<open>C10: \<^verbatim>\<open>updateGraph\<close> depends on the listed inputs only\<close>

text \<open>
  C10: two states with equal histories 0..4, threshold, \<open>alertEnabled\<close> and \<open>lastBeepTime\<close>,
  evaluated at the same clock value, get the same chart series, make the same beeps and end
  with the same \<open>lastBeepTime\<close>, whatever their earlier chart series and beeps were. This
  holds for every rounding function.
\<close>

theorem C10_updateGraph_deterministic:
  assumes "\<forall>i<5. keypointsData s i = keypointsData s' i" and "threshold s = threshold s'"
    and "alertEnabled s = alertEnabled s'" and "lastBeepTime s = lastBeepTime s'"
  shows "chartData (updateGraph rnd t s) = chartData (updateGraph rnd t s')
    \<and> beepsSince (length (audio s)) (updateGraph rnd t s)
        = beepsSince (length (audio s')) (updateGraph rnd t s')
    \<and> lastBeepTime (updateGraph rnd t s) = lastBeepTime (updateGraph rnd t s')"
proof -
  from assms(1) have g: "graphData rnd t (keypointsData s) = graphData rnd t (keypointsData s')"
    by (intro graphData_cong) simp
  from assms(1)
  have d: "dataLast1Sec rnd t (keypointsData s) = dataLast1Sec rnd t (keypointsData s')"
    by (intro dataLast1Sec_cong) simp
  from assms d have "alertFires rnd t s = alertFires rnd t s'"
    by (simp add: alertFires_def)
  with assms g show ?thesis
    by (simp add: updateGraph_chartData updateGraph_audio updateGraph_lastBeepTime
        beepsSince_def)
qed

text \<open>
  C10 in double arithmetic at two states that differ in the earlier chart series and in the
  earlier beeps: both make the same one beep and get the same chart series.
\<close>

theorem C10_updateGraph_deterministic_witness:
  "beepsSince 0 (updateGraph binary64 2000
      (ingest binary64 2000 (Some [pose_kp0 400]) (handle binary64 initial_state ToggleClick)))
   = [\<lparr>beep_at = 2000, beep_vol = 0.2, beep_freq = 440, beep_duration = 300\<rparr>]
   \<and> chartData (updateGraph binary64 2000
      (ingest binary64 2000 (Some [pose_kp0 400]) (handle binary64 initial_state ToggleClick)))
   = chartData (updateGraph binary64 2000
      ((ingest binary64 2000 (Some [pose_kp0 400]) (handle binary64 initial_state ToggleClick))
         \<lparr>chartData := [1, 2, 3],
          audio := [\<lparr>beep_at = 5, beep_vol = 1, beep_freq = 1, beep_duration = 1\<rparr>]\<rparr>))
   \<and> beepsSince 0 (updateGraph binary64 2000
      (ingest binary64 2000 (Some [pose_kp0 400]) (handle binary64 initial_state ToggleClick)))
   = beepsSince 1 (updateGraph binary64 2000
      ((ingest binary64 2000 (Some [pose_kp0 400]) (handle binary64 initial_state ToggleClick))
         \<lparr>chartData := [1, 2, 3],
          audio := [\<lparr>beep_at = 5, beep_vol = 1, beep_freq = 1, beep_duration = 1\<rparr>]\<rparr>))"
proof -
  note r = rounding_binary64
  define s where "s = ingest binary64 2000 (Some [pose_kp0 400]) (handle binary64 initial_state ToggleClick)"
  define s' where "s' = s\<lparr>chartData := [1, 2, 3],
          audio := [\<lparr>beep_at = 5, beep_vol = 1, beep_freq = 1, beep_duration = 1\<rparr>]\<rparr>"
  have a: "audio s = []" "alertEnabled s" "threshold s = 300" "lastBeepTime s = 0"
    by (simp_all add: s_def ingest_frame initial_state_def)
  have k: "keypointsData s i = (if i = 0 then [\<lparr>entry_time = 2000, entry_y = 400\<rparr>] else [])" for i
    unfolding s_def by (rule kd_first_frame [OF r]) (simp add: initial_state_def)
  have d: "dataLast1Sec binary64 2000 (keypointsData s) = [400]"
    by (subst pooled_one_history) (simp_all add: k rounding_zero [OF r])
  have "alertFires binary64 2000 s"
    by (simp add: alertFires_def a d fmean_400 [OF r] fsub_def rounding_numeral [OF r])
  then have b: "beepsSince 0 (updateGraph binary64 2000 s)
      = [\<lparr>beep_at = 2000, beep_vol = 0.2, beep_freq = 440, beep_duration = 300\<rparr>]"
    by (simp add: beepsSince_def updateGraph_audio a)
  have "chartData (updateGraph binary64 2000 s) = chartData (updateGraph binary64 2000 s')
    \<and> beepsSince (length (audio s)) (updateGraph binary64 2000 s)
        = beepsSince (length (audio s')) (updateGraph binary64 2000 s')"
    using C10_updateGraph_deterministic [of s s' binary64 2000] by (simp add: s'_def)
  with b show ?thesis
    unfolding s'_def s_def [symmetric] by (simp add: a)
qed

end
